theory Spec2Isabelle
  imports Complex_Main "HOL-Library.AList"
begin

section \<open>Python values shared by the pipeline stages\<close>

text \<open>
  Exceptions of the Python source are values.  Every function of the source that can
  raise returns \<open>py_exn + 'a\<close>, with \<open>Inl\<close> for the raised exception.
\<close>

datatype py_exn =
    ValueError string
  | IndexError string
  | KeyError string
  | AttributeError string
  | RuntimeError string
  | OtherError string

text \<open>
  Python's \<^verbatim>\<open>float\<close> is modelled by the rationals: decimal literals are exact fractions and
  the arithmetic is exact.  Rounding of binary floating point is outside this model.
\<close>

type_synonym pyfloat = rat

subsection \<open>String methods\<close>

text \<open>\<^verbatim>\<open>d.get(k, default)\<close> on a dictionary written as the list of its items.\<close>

definition get_or :: "('k \<times> 'v) list \<Rightarrow> 'k \<Rightarrow> 'v \<Rightarrow> 'v" where
  "get_or d k dflt = (case map_of d k of None \<Rightarrow> dflt | Some v \<Rightarrow> v)"

text \<open>\<^verbatim>\<open>str.lower\<close> on ASCII letters; other characters are left as they are.\<close>

definition lower_char :: "char \<Rightarrow> char" where
  "lower_char c =
     get_or (zip ''ABCDEFGHIJKLMNOPQRSTUVWXYZ'' ''abcdefghijklmnopqrstuvwxyz'') c c"

definition py_lower :: "string \<Rightarrow> string" where
  "py_lower s = map lower_char s"

text \<open>\<^verbatim>\<open>str.strip()\<close>: ASCII white space is removed at both ends.\<close>

definition is_space :: "char \<Rightarrow> bool" where
  "is_space c =
     (c \<in> set [CHR '' '', CHR 0x09, CHR 0x0A, CHR 0x0B, CHR 0x0C, CHR 0x0D,
                CHR 0x1C, CHR 0x1D, CHR 0x1E, CHR 0x1F])"

definition py_strip :: "string \<Rightarrow> string" where
  "py_strip s = rev (dropWhile is_space (rev (dropWhile is_space s)))"

text \<open>\<^verbatim>\<open>s.split(c)\<close> for a separator of one character: \<^verbatim>\<open>"".split(",") == [""]\<close>.\<close>

fun py_split :: "char \<Rightarrow> string \<Rightarrow> string list" where
  "py_split c [] = [[]]"
| "py_split c (x # xs) =
     (if x = c then [] # py_split c xs
      else (case py_split c xs of w # ws \<Rightarrow> (x # w) # ws | [] \<Rightarrow> [[x]]))"

text \<open>\<^verbatim>\<open>a or b\<close> on optional strings: \<^verbatim>\<open>None\<close> and the empty string are falsy.\<close>

definition str_or :: "string option \<Rightarrow> string option \<Rightarrow> string option" where
  "str_or a b = (case a of Some (c # cs) \<Rightarrow> a | _ \<Rightarrow> b)"

definition str_or_str :: "string option \<Rightarrow> string \<Rightarrow> string" where
  "str_or_str a b = (case a of Some (c # cs) \<Rightarrow> c # cs | _ \<Rightarrow> b)"

section \<open>Batcher: \<open>create_batches\<close>\<close>

text \<open>
  \<^verbatim>\<open>range(i, n, step)\<close> for a non-negative start and a positive step.  Python raises
  for a zero step; that case is decided by the caller below, and the recursion stops there.
\<close>

function py_range :: "nat \<Rightarrow> nat \<Rightarrow> nat \<Rightarrow> nat list" where
  "py_range i n step = (if step = 0 \<or> n \<le> i then [] else i # py_range (i + step) n step)"
  by pat_completeness auto
termination
  by (relation "measure (\<lambda>(i, n, step). n - i)") auto

declare py_range.simps [simp del]

text \<open>The slice \<^verbatim>\<open>xs[i:j]\<close> for \<open>0 \<le> i \<le> j\<close>; it is cut at the end of the list.\<close>

definition py_slice :: "'a list \<Rightarrow> nat \<Rightarrow> nat \<Rightarrow> 'a list" where
  "py_slice xs i j = take (j - i) (drop i xs)"

text \<open>
  \<^verbatim>\<open>
  def create_batches(file_keys, batch_size=5):
      if not file_keys:
          return []
      batches = [file_keys[i:i + batch_size] for i in range(0, len(file_keys), batch_size)]
      return batches
  \<close>
  \<open>batch_size\<close> is a Python integer: zero makes \<^verbatim>\<open>range\<close> raise, a negative step gives
  the empty range.
\<close>

definition create_batches :: "'a list \<Rightarrow> int \<Rightarrow> py_exn + 'a list list" where
  "create_batches file_keys batch_size =
     (if file_keys = [] then Inr []
      else if batch_size = 0 then Inl (ValueError ''range() arg 3 must not be zero'')
      else if batch_size < 0 then Inr []
      else Inr (map (\<lambda>i. py_slice file_keys i (i + nat batch_size))
                  (py_range 0 (length file_keys) (nat batch_size))))"

section \<open>Provider abstraction: pricing and cost\<close>

datatype vendor = OpenAI | Anthropic | Gemini

text \<open>
  \<open>BaseLLMProvider.__init__\<close> stores the key, the model, the sampling parameters and the
  provider name (the class name without \<open>Provider\<close>, in lower case).  The subclass is the
  \<open>vendor\<close> field.
\<close>

record provider =
  vendor :: vendor
  api_key :: "string option"
  model :: string
  temperature :: pyfloat
  max_tokens :: int
  provider_name :: string

text \<open>
  The dictionaries \<^verbatim>\<open>{"input": r, "output": r'}\<close> of rates per million tokens; the two
  keys are the fields \<open>input_rate\<close> and \<open>output_rate\<close>.
\<close>

record pricing =
  input_rate :: pyfloat
  output_rate :: pyfloat

text \<open>The \<open>pricing_map\<close> of each subclass, as its \<open>_get_pricing\<close> writes it.\<close>

definition openai_pricing_map :: "(string \<times> pricing) list" where
  "openai_pricing_map =
     [(''gpt-4o'', \<lparr>input_rate = 250 / 100, output_rate = 1000 / 100\<rparr>),
      (''gpt-4o-mini'', \<lparr>input_rate = 15 / 100, output_rate = 60 / 100\<rparr>),
      (''gpt-4-turbo'', \<lparr>input_rate = 1000 / 100, output_rate = 3000 / 100\<rparr>)]"

definition anthropic_pricing_map :: "(string \<times> pricing) list" where
  "anthropic_pricing_map =
     [(''claude-3-opus-20240229'', \<lparr>input_rate = 1500 / 100, output_rate = 7500 / 100\<rparr>),
      (''claude-3-sonnet-20240229'', \<lparr>input_rate = 300 / 100, output_rate = 1500 / 100\<rparr>),
      (''claude-3-haiku-20240307'', \<lparr>input_rate = 25 / 100, output_rate = 125 / 100\<rparr>)]"

definition gemini_pricing_map :: "(string \<times> pricing) list" where
  "gemini_pricing_map =
     [(''gemini-1.5-flash'', \<lparr>input_rate = 0, output_rate = 0\<rparr>),
      (''gemini-1.5-pro'', \<lparr>input_rate = 125 / 100, output_rate = 500 / 100\<rparr>)]"

definition get_pricing :: "provider \<Rightarrow> pricing" where
  "get_pricing self =
     (case vendor self of
        OpenAI \<Rightarrow>
          get_or openai_pricing_map (model self) \<lparr>input_rate = 15 / 100, output_rate = 60 / 100\<rparr>
      | Anthropic \<Rightarrow>
          get_or anthropic_pricing_map (model self) \<lparr>input_rate = 25 / 100, output_rate = 125 / 100\<rparr>
      | Gemini \<Rightarrow>
          get_or gemini_pricing_map (model self) \<lparr>input_rate = 0, output_rate = 0\<rparr>)"

text \<open>
  \<^verbatim>\<open>
  def _calculate_cost(self, input_tokens, output_tokens):
      pricing = self._get_pricing()
      return (input_tokens * pricing["input"] + output_tokens * pricing["output"]) / 1_000_000
  \<close>
\<close>

definition calculate_cost :: "provider \<Rightarrow> int \<Rightarrow> int \<Rightarrow> pyfloat" where
  "calculate_cost self input_tokens output_tokens =
     (let pricing = get_pricing self
      in (of_int input_tokens * input_rate pricing + of_int output_tokens * output_rate pricing)
           / 1000000)"

section \<open>Provider selector: \<open>LLMProviderFactory\<close>\<close>

text \<open>
  What the factory reads from outside: the process environment (\<^verbatim>\<open>os.getenv\<close>) and the
  vendor SDKs, whose client constructors may raise.  \<open>sdk_init v key m\<close> is \<open>Some msg\<close> when
  the constructor of vendor \<open>v\<close> raises with message \<open>msg\<close> for that key and model.
\<close>

record sys =
  environ :: "string \<Rightarrow> string option"
  sdk_init :: "vendor \<Rightarrow> string option \<Rightarrow> string \<Rightarrow> string option"

definition getenv_or :: "sys \<Rightarrow> string \<Rightarrow> string \<Rightarrow> string" where
  "getenv_or sy name dflt = (case environ sy name of None \<Rightarrow> dflt | Some v \<Rightarrow> v)"

text \<open>The constructor of a provider subclass: the base initialiser, then the SDK client.\<close>

definition new_provider :: "sys \<Rightarrow> vendor \<Rightarrow> string option \<Rightarrow> string \<Rightarrow> py_exn + provider" where
  "new_provider sy v key m =
     (case sdk_init sy v key m of
        Some msg \<Rightarrow> Inl (OtherError msg)
      | None \<Rightarrow>
          Inr \<lparr>vendor = v, api_key = key, model = m, temperature = 1 / 10, max_tokens = 1500,
               provider_name = (case v of OpenAI \<Rightarrow> ''openai'' | Anthropic \<Rightarrow> ''anthropic''
                                 | Gemini \<Rightarrow> ''gemini'')\<rparr>)"

text \<open>
  \<^verbatim>\<open>
  def create_provider(provider_type, api_key=None, model=None, **kwargs):
      provider_type = provider_type.lower()
      if provider_type == LLMProviderType.OPENAI:
          api_key = api_key or os.getenv("OPENAI_API_KEY")
          model = model or os.getenv("OPENAI_MODEL", "gpt-4o-mini")
          return OpenAIProvider(api_key=api_key, model=model, **kwargs)
      elif ... ANTHROPIC ... elif ... GEMINI ...
      else:
          raise ValueError(f"Unsupported provider: {provider_type}")
  \<close>
  The remaining keyword arguments (sampling parameters) are not passed by the pipeline and
  are left at the defaults of the base initialiser.
\<close>

definition create_provider ::
  "sys \<Rightarrow> string \<Rightarrow> string option \<Rightarrow> string option \<Rightarrow> py_exn + provider" where
  "create_provider sy provider_type key m =
     (let provider_type = py_lower provider_type in
      if provider_type = ''openai'' then
        new_provider sy OpenAI (str_or key (environ sy ''OPENAI_API_KEY''))
          (str_or_str m (getenv_or sy ''OPENAI_MODEL'' ''gpt-4o-mini''))
      else if provider_type = ''anthropic'' then
        new_provider sy Anthropic (str_or key (environ sy ''ANTHROPIC_API_KEY''))
          (str_or_str m (getenv_or sy ''ANTHROPIC_MODEL'' ''claude-3-haiku-20240307''))
      else if provider_type = ''gemini'' then
        new_provider sy Gemini (str_or key (environ sy ''GEMINI_API_KEY''))
          (str_or_str m (getenv_or sy ''GEMINI_MODEL'' ''gemini-1.5-flash''))
      else Inl (ValueError (''Unsupported provider: '' @ provider_type)))"

text \<open>
  The logger calls of \<open>create_with_fallback\<close>, one per construction attempt:
  \<open>Initialized t\<close> for \<^verbatim>\<open>logger.info(f"Successfully initialized {t} provider")\<close> and
  \<open>InitFailed t e\<close> for \<^verbatim>\<open>logger.warning(f"Failed to initialize {t} provider: {e}")\<close>.
\<close>

datatype log_event = Initialized string | InitFailed string py_exn

text \<open>The local variables of the loop, and the log written so far.\<close>

record fallback_state =
  providers :: "provider list"
  tried_providers :: "string set"
  log :: "log_event list"

text \<open>
  \<^verbatim>\<open>
  for provider_type in all_providers:
      if provider_type in tried_providers:
          continue
      try:
          provider = LLMProviderFactory.create_provider(provider_type, **kwargs)
          providers.append(provider)
          tried_providers.add(provider_type)
          logger.info(...)
      except Exception as e:
          logger.warning(...)
          continue
  \<close>
\<close>

fun try_providers ::
  "sys \<Rightarrow> string option \<Rightarrow> string option \<Rightarrow> string list \<Rightarrow> fallback_state \<Rightarrow> fallback_state"
where
  "try_providers sy key m [] st = st"
| "try_providers sy key m (provider_type # rest) st =
     (if provider_type \<in> tried_providers st then try_providers sy key m rest st
      else (case create_provider sy provider_type key m of
              Inr provider \<Rightarrow>
                try_providers sy key m rest
                  (st\<lparr>providers := providers st @ [provider],
                      tried_providers := insert provider_type (tried_providers st),
                      log := log st @ [Initialized provider_type]\<rparr>)
            | Inl e \<Rightarrow>
                try_providers sy key m rest
                  (st\<lparr>log := log st @ [InitFailed provider_type e]\<rparr>)))"

text \<open>
  \<^verbatim>\<open>
  if fallback_order is None:
      fallback_order = os.getenv("LLM_FALLBACK_ORDER", "gemini,openai,anthropic").split(",")
  all_providers = [primary_provider] + [p.strip() for p in fallback_order
                                        if p.strip() != primary_provider]
  \<close>
\<close>

definition all_providers :: "sys \<Rightarrow> string \<Rightarrow> string list option \<Rightarrow> string list" where
  "all_providers sy primary_provider fallback_order =
     (let fallback_order =
            (case fallback_order of
               None \<Rightarrow> py_split CHR '','' (getenv_or sy ''LLM_FALLBACK_ORDER''
                                             ''gemini,openai,anthropic'')
             | Some order \<Rightarrow> order)
      in primary_provider
           # map py_strip (filter (\<lambda>p. py_strip p \<noteq> primary_provider) fallback_order))"

definition fallback_run ::
  "sys \<Rightarrow> string \<Rightarrow> string list option \<Rightarrow> string option \<Rightarrow> string option \<Rightarrow> fallback_state"
where
  "fallback_run sy primary_provider fallback_order key m =
     try_providers sy key m (all_providers sy primary_provider fallback_order)
       \<lparr>providers = [], tried_providers = {}, log = []\<rparr>"

text \<open>
  \<open>create_with_fallback\<close> returns the list of all providers that could be constructed and
  raises when there is none.
\<close>

definition create_with_fallback ::
  "sys \<Rightarrow> string \<Rightarrow> string list option \<Rightarrow> string option \<Rightarrow> string option
     \<Rightarrow> py_exn + provider list"
where
  "create_with_fallback sy primary_provider fallback_order key m =
     (let st = fallback_run sy primary_provider fallback_order key m
      in if providers st = [] then Inl (RuntimeError ''No LLM providers could be initialized'')
         else Inr (providers st))"

text \<open>
  \<^verbatim>\<open>
  def get_primary_provider(**kwargs):
      primary = os.getenv("LLM_PRIMARY_PROVIDER", "openai")
      enable_fallback = os.getenv("LLM_ENABLE_FALLBACK", "true").lower() == "true"
      if enable_fallback:
          providers = LLMProviderFactory.create_with_fallback(primary, **kwargs)
          return providers[0]
      else:
          return LLMProviderFactory.create_provider(primary, **kwargs)
  \<close>
\<close>

definition get_primary_provider :: "sys \<Rightarrow> string option \<Rightarrow> string option \<Rightarrow> py_exn + provider" where
  "get_primary_provider sy key m =
     (let primary = getenv_or sy ''LLM_PRIMARY_PROVIDER'' ''openai'';
          enable_fallback = (py_lower (getenv_or sy ''LLM_ENABLE_FALLBACK'' ''true'') = ''true'')
      in if enable_fallback then
           (case create_with_fallback sy primary None key m of
              Inl e \<Rightarrow> Inl e
            | Inr [] \<Rightarrow> Inl (IndexError ''list index out of range'')
            | Inr (p # ps) \<Rightarrow> Inr p)
         else create_provider sy primary key m)"

text \<open>An OpenAI provider on the default model, as \<open>create_provider\<close> builds it.\<close>

definition mini :: provider where
  "mini = \<lparr>vendor = OpenAI, api_key = Some ''sk-test'', model = ''gpt-4o-mini'',
           temperature = 1 / 10, max_tokens = 1500, provider_name = ''openai''\<rparr>"

text \<open>
  An environment without any credential, where the configured fallback order names one
  vendor twice.
\<close>

definition no_credentials :: sys where
  "no_credentials =
     \<lparr>environ = (\<lambda>name. if name = ''LLM_FALLBACK_ORDER'' then Some ''gemini,gemini'' else None),
      sdk_init = (\<lambda>v key m. Some ''missing credential'')\<rparr>"

section \<open>Python values and dictionaries\<close>

text \<open>
  The values that \<^verbatim>\<open>json.loads\<close> produces and that the stages hand on in their
  dictionaries.  A dictionary is the list of its items in insertion order.
\<close>

datatype pyval =
    PNone
  | PBool bool
  | PInt int
  | PFloat pyfloat
  | PStr string
  | PList "pyval list"
  | PDict "(string \<times> pyval) list"

type_synonym pydict = "(string \<times> pyval) list"

text \<open>\<^verbatim>\<open>d.get(k)\<close>: \<^verbatim>\<open>None\<close> for a missing key.\<close>

definition py_get :: "pydict \<Rightarrow> string \<Rightarrow> pyval" where
  "py_get d k = get_or d k PNone"

text \<open>\<^verbatim>\<open>d[k]\<close>: raises \<^verbatim>\<open>KeyError\<close> for a missing key.\<close>

definition py_item :: "pydict \<Rightarrow> string \<Rightarrow> py_exn + pyval" where
  "py_item d k = (case map_of d k of None \<Rightarrow> Inl (KeyError k) | Some v \<Rightarrow> Inr v)"

text \<open>\<^verbatim>\<open>d[k] = v\<close>, also one entry of \<^verbatim>\<open>d.update({...})\<close> and of \<^verbatim>\<open>{**d, k: v}\<close>.\<close>

definition py_set :: "string \<Rightarrow> pyval \<Rightarrow> pydict \<Rightarrow> pydict" where
  "py_set k v d = AList.update k v d"

text \<open>Truth value of a Python object, as \<^verbatim>\<open>not x\<close> and \<^verbatim>\<open>if x\<close> test it.\<close>

fun truthy :: "pyval \<Rightarrow> bool" where
  "truthy PNone = False"
| "truthy (PBool b) = b"
| "truthy (PInt n) = (n \<noteq> 0)"
| "truthy (PFloat r) = (r \<noteq> 0)"
| "truthy (PStr s) = (s \<noteq> [])"
| "truthy (PList vs) = (vs \<noteq> [])"
| "truthy (PDict kvs) = (kvs \<noteq> [])"

text \<open>A text between single quotes, as \<^verbatim>\<open>repr\<close> writes a plain string.\<close>

definition quoted :: "string \<Rightarrow> string" where
  "quoted s = CHR 0x27 # s @ [CHR 0x27]"

text \<open>\<^verbatim>\<open>type(v).__name__\<close>.\<close>

fun type_name :: "pyval \<Rightarrow> string" where
  "type_name PNone = ''NoneType''"
| "type_name (PBool b) = ''bool''"
| "type_name (PInt n) = ''int''"
| "type_name (PFloat r) = ''float''"
| "type_name (PStr s) = ''str''"
| "type_name (PList vs) = ''list''"
| "type_name (PDict kvs) = ''dict''"

text \<open>
  \<^verbatim>\<open>str(e)\<close> of an exception: its message; for a \<^verbatim>\<open>KeyError\<close>, which carries the
  missing key, the key between quotes.
\<close>

fun exn_str :: "py_exn \<Rightarrow> string" where
  "exn_str (ValueError s) = s"
| "exn_str (IndexError s) = s"
| "exn_str (KeyError s) = quoted s"
| "exn_str (AttributeError s) = s"
| "exn_str (RuntimeError s) = s"
| "exn_str (OtherError s) = s"

text \<open>
  \<^verbatim>\<open>s.replace(old, new)\<close> for a non-empty \<open>old\<close>: every occurrence, found from left to right
  without overlap, is replaced.
\<close>

function py_replace :: "string \<Rightarrow> string \<Rightarrow> string \<Rightarrow> string" where
  "py_replace old new s =
     (if old = [] \<or> s = [] then s
      else if take (length old) s = old then new @ py_replace old new (drop (length old) s)
      else hd s # py_replace old new (tl s))"
  by pat_completeness auto
termination
  by (relation "measure (\<lambda>(old, new, s). length s)") auto

declare py_replace.simps [simp del]

text \<open>Decimal digits of a natural number, as \<^verbatim>\<open>str(n)\<close> writes them.\<close>

function show_nat :: "nat \<Rightarrow> string" where
  "show_nat n =
     (if n < 10 then [''0123456789'' ! n]
      else show_nat (n div 10) @ [''0123456789'' ! (n mod 10)])"
  by pat_completeness auto
termination
  by (relation "measure id") auto

declare show_nat.simps [simp del]

text \<open>A loop or comprehension whose body may raise: the first exception ends it.\<close>

fun try_map :: "('a \<Rightarrow> 'e + 'b) \<Rightarrow> 'a list \<Rightarrow> 'e + 'b list" where
  "try_map f [] = Inr []"
| "try_map f (x # xs) =
     (case f x of
        Inl e \<Rightarrow> Inl e
      | Inr y \<Rightarrow> (case try_map f xs of Inl e \<Rightarrow> Inl e | Inr ys \<Rightarrow> Inr (y # ys)))"

section \<open>Validator: the pydantic models of \<open>invoice_models.py\<close>\<close>

text \<open>
  What the models take from the pydantic library and from the standard library is a
  parameter: how a value is converted to the declared type of a field (\<open>None\<close> when the
  library rejects it), \<^verbatim>\<open>datetime.fromisoformat\<close>, and the text of an error message.
  The type \<open>'dt\<close> stands for \<^verbatim>\<open>datetime\<close> objects.
\<close>

datatype err_msg =
    FieldRequired
  | InvalidType
  | TooShort
  | BelowMinimum
  | ItemTotalMismatch pyfloat pyfloat
  | InvoiceTotalMismatch pyfloat pyfloat
  | SubtotalMismatch pyfloat pyfloat
  | InvalidDatetime string

record 'dt pydantic =
  as_str :: "pyval \<Rightarrow> string option"
  as_int :: "pyval \<Rightarrow> int option"
  as_float :: "pyval \<Rightarrow> pyfloat option"
  as_datetime :: "pyval \<Rightarrow> 'dt option"
  fromisoformat :: "string \<Rightarrow> 'dt option"
  show_msg :: "err_msg \<Rightarrow> string"

text \<open>
  One entry of \<^verbatim>\<open>ValidationError.errors()\<close>: the location tuple \<^verbatim>\<open>err['loc']\<close> (field names
  and list indices, outermost first) and the message \<^verbatim>\<open>err['msg']\<close>.
\<close>

datatype loc_item = AtField string | AtIndex nat

record line_error =
  loc :: "loc_item list"
  msg :: err_msg

type_synonym 'a validated = "line_error list + 'a"

text \<open>An error raised where the value is validated: its location is still empty.\<close>

definition invalid :: "err_msg \<Rightarrow> 'a validated" where
  "invalid m = Inl [\<lparr>loc = [], msg = m\<rparr>]"

text \<open>Errors of a nested value get the field name or the index in front of their location.\<close>

definition outer :: "loc_item \<Rightarrow> 'a validated \<Rightarrow> 'a validated" where
  "outer l r = (case r of Inl es \<Rightarrow> Inl (map (\<lambda>e. e\<lparr>loc := l # loc e\<rparr>) es) | Inr a \<Rightarrow> Inr a)"

text \<open>All fields of a model are validated and the errors of all of them are collected.\<close>

definition ap :: "('a \<Rightarrow> 'b) validated \<Rightarrow> 'a validated \<Rightarrow> 'b validated" where
  "ap f x =
     (case f of
        Inl es \<Rightarrow> (case x of Inl es' \<Rightarrow> Inl (es @ es') | Inr a \<Rightarrow> Inl es)
      | Inr g \<Rightarrow> (case x of Inl es' \<Rightarrow> Inl es' | Inr a \<Rightarrow> Inr (g a)))"

text \<open>The fields validated so far, \<^verbatim>\<open>info.data\<close>, hold only the fields that were valid.\<close>

definition valid_value :: "'a validated \<Rightarrow> 'a option" where
  "valid_value r = (case r of Inl es \<Rightarrow> None | Inr a \<Rightarrow> Some a)"

text \<open>A required field \<^verbatim>\<open>Field(...)\<close>, a field with a default, and \<^verbatim>\<open>Optional[str] = None\<close>.\<close>

definition required :: "pydict \<Rightarrow> string \<Rightarrow> (pyval \<Rightarrow> 'a validated) \<Rightarrow> 'a validated" where
  "required d name validate =
     (case map_of d name of
        None \<Rightarrow> outer (AtField name) (invalid FieldRequired)
      | Some v \<Rightarrow> outer (AtField name) (validate v))"

definition with_default ::
  "pydict \<Rightarrow> string \<Rightarrow> 'a \<Rightarrow> (pyval \<Rightarrow> 'a validated) \<Rightarrow> 'a validated" where
  "with_default d name dflt validate =
     (case map_of d name of
        None \<Rightarrow> Inr dflt
      | Some v \<Rightarrow> outer (AtField name) (validate v))"

definition str_min :: "'dt pydantic \<Rightarrow> nat \<Rightarrow> pyval \<Rightarrow> string validated" where
  "str_min P n v =
     (case as_str P v of
        None \<Rightarrow> invalid InvalidType
      | Some s \<Rightarrow> if length s < n then invalid TooShort else Inr s)"

definition optional_str :: "'dt pydantic \<Rightarrow> pyval \<Rightarrow> string option validated" where
  "optional_str P v =
     (if v = PNone then Inr None
      else (case as_str P v of None \<Rightarrow> invalid InvalidType | Some s \<Rightarrow> Inr (Some s)))"

definition int_ge :: "'dt pydantic \<Rightarrow> int \<Rightarrow> pyval \<Rightarrow> int validated" where
  "int_ge P lo v =
     (case as_int P v of
        None \<Rightarrow> invalid InvalidType
      | Some n \<Rightarrow> if n \<ge> lo then Inr n else invalid BelowMinimum)"

definition float_ge :: "'dt pydantic \<Rightarrow> pyfloat \<Rightarrow> pyval \<Rightarrow> pyfloat validated" where
  "float_ge P lo v =
     (case as_float P v of
        None \<Rightarrow> invalid InvalidType
      | Some x \<Rightarrow> if x \<ge> lo then Inr x else invalid BelowMinimum)"

subsection \<open>\<open>InvoiceItem\<close>\<close>

record invoice_item =
  nome :: string
  quantidade :: int
  preco_unitario :: pyfloat
  preco_total :: pyfloat

text \<open>
  \<^verbatim>\<open>
  @field_validator('preco_total')
  def validate_total(cls, v, info):
      if 'quantidade' in info.data and 'preco_unitario' in info.data:
          expected = info.data['quantidade'] * info.data['preco_unitario']
          if abs(v - expected) > 0.01:
              raise ValueError(f"Item total mismatch: {v} != {expected:.2f}")
      return v
  \<close>
  The two arguments after \<open>v\<close> are the entries of \<^verbatim>\<open>info.data\<close> for \<open>quantidade\<close> and
  \<open>preco_unitario\<close>.
\<close>

definition validate_total :: "pyfloat \<Rightarrow> int option \<Rightarrow> pyfloat option \<Rightarrow> err_msg + pyfloat" where
  "validate_total v data_quantidade data_preco_unitario =
     (case data_quantidade of
        None \<Rightarrow> Inr v
      | Some q \<Rightarrow>
          (case data_preco_unitario of
             None \<Rightarrow> Inr v
           | Some u \<Rightarrow>
               (let expected = of_int q * u
                in if \<bar>v - expected\<bar> > 1 / 100 then Inl (ItemTotalMismatch v expected)
                   else Inr v)))"

text \<open>
  The field \<open>preco_total\<close>: the type and the bound \<open>ge=0\<close> first, then the field
  validator, whose \<^verbatim>\<open>ValueError\<close> becomes an error of this field.
\<close>

definition preco_total_field ::
  "'dt pydantic \<Rightarrow> int option \<Rightarrow> pyfloat option \<Rightarrow> pyval \<Rightarrow> pyfloat validated" where
  "preco_total_field P data_quantidade data_preco_unitario x =
     (case float_ge P 0 x of
        Inl es \<Rightarrow> Inl es
      | Inr t \<Rightarrow>
          (case validate_total t data_quantidade data_preco_unitario of
             Inl m \<Rightarrow> invalid m
           | Inr t' \<Rightarrow> Inr t'))"

text \<open>The constructor of the model: the fields in the order of their declaration.\<close>

definition new_InvoiceItem :: "'dt pydantic \<Rightarrow> pyval \<Rightarrow> invoice_item validated" where
  "new_InvoiceItem P v =
     (case v of
        PDict d \<Rightarrow>
          (let nome_r = required d ''nome'' (str_min P 1);
               quantidade_r = required d ''quantidade'' (int_ge P 1);
               preco_unitario_r = required d ''preco_unitario'' (float_ge P 0);
               preco_total_r =
                 required d ''preco_total''
                   (preco_total_field P (valid_value quantidade_r)
                      (valid_value preco_unitario_r))
           in ap (ap (ap (ap (Inr (\<lambda>n q u t. \<lparr>nome = n, quantidade = q, preco_unitario = u,
                                              preco_total = t\<rparr>))
                          nome_r) quantidade_r) preco_unitario_r) preco_total_r)
      | _ \<Rightarrow> invalid InvalidType)"

subsection \<open>\<open>InvoiceData\<close>\<close>

record 'dt invoice_data =
  order_id :: string
  restaurante :: string
  cnpj :: "string option"
  endereco :: "string option"
  data_hora :: 'dt
  itens :: "invoice_item list"
  subtotal :: pyfloat
  taxa_entrega :: pyfloat
  taxa_servico :: pyfloat
  gorjeta :: pyfloat
  invoice_total :: pyfloat
  pagamento :: "string option"
  endereco_entrega :: "string option"
  tempo_entrega :: "string option"
  entregador :: "string option"

text \<open>
  The field \<open>total\<close> of the model is \<open>invoice_total\<close> here.
  \<^verbatim>\<open>
  @model_validator(mode='after')
  def validate_invoice_total(self):
      expected_total = self.subtotal + self.taxa_entrega + self.taxa_servico + self.gorjeta
      if abs(self.total - expected_total) > 0.01:
          raise ValueError(f"Invoice total mismatch: ...")
      items_subtotal = sum(item.preco_total for item in self.itens)
      if abs(self.subtotal - items_subtotal) > 0.01:
          raise ValueError(f"Subtotal mismatch: ...")
      return self
  \<close>
\<close>

definition validate_invoice_total :: "'dt invoice_data \<Rightarrow> err_msg + 'dt invoice_data" where
  "validate_invoice_total self =
     (let expected_total = subtotal self + taxa_entrega self + taxa_servico self + gorjeta self
      in if \<bar>invoice_total self - expected_total\<bar> > 1 / 100
         then Inl (InvoiceTotalMismatch (invoice_total self) expected_total)
         else (let items_subtotal = sum_list (map preco_total (itens self))
               in if \<bar>subtotal self - items_subtotal\<bar> > 1 / 100
                  then Inl (SubtotalMismatch (subtotal self) items_subtotal)
                  else Inr self))"

text \<open>
  \<^verbatim>\<open>
  @field_validator('data_hora', mode='before')
  def parse_datetime(cls, v):
      if isinstance(v, str):
          try:
              return datetime.fromisoformat(v.replace('Z', '+00:00'))
          except Exception:
              raise ValueError(f"Invalid datetime format: {v}")
      return v
  \<close>
  The result is a \<^verbatim>\<open>datetime\<close> (\<open>Inr\<close>) or the value itself, which the library then
  converts (\<open>Inl\<close>).
\<close>

definition parse_datetime :: "'dt pydantic \<Rightarrow> pyval \<Rightarrow> err_msg + (pyval + 'dt)" where
  "parse_datetime P v =
     (case v of
        PStr s \<Rightarrow>
          (case fromisoformat P (py_replace ''Z'' ''+00:00'' s) of
             None \<Rightarrow> Inl (InvalidDatetime s)
           | Some dt \<Rightarrow> Inr (Inr dt))
      | _ \<Rightarrow> Inr (Inl v))"

definition datetime_field :: "'dt pydantic \<Rightarrow> pyval \<Rightarrow> 'dt validated" where
  "datetime_field P v =
     (case parse_datetime P v of
        Inl m \<Rightarrow> invalid m
      | Inr (Inr dt) \<Rightarrow> Inr dt
      | Inr (Inl raw) \<Rightarrow>
          (case as_datetime P raw of None \<Rightarrow> invalid InvalidType | Some dt \<Rightarrow> Inr dt))"

text \<open>\<open>itens: List[InvoiceItem] = Field(..., min_length=1)\<close>: every element is validated.\<close>

fun validate_items :: "'dt pydantic \<Rightarrow> nat \<Rightarrow> pyval list \<Rightarrow> invoice_item list validated" where
  "validate_items P i [] = Inr []"
| "validate_items P i (v # vs) =
     ap (ap (Inr (#)) (outer (AtIndex i) (new_InvoiceItem P v))) (validate_items P (Suc i) vs)"

definition items_field :: "'dt pydantic \<Rightarrow> pyval \<Rightarrow> invoice_item list validated" where
  "items_field P v =
     (case v of
        PList vs \<Rightarrow>
          (case validate_items P 0 vs of
             Inl es \<Rightarrow> Inl es
           | Inr its \<Rightarrow> if length its < 1 then invalid TooShort else Inr its)
      | _ \<Rightarrow> invalid InvalidType)"

text \<open>The field values of \<open>InvoiceData(**extraction)\<close>, before the model validator.\<close>

definition invoice_fields :: "'dt pydantic \<Rightarrow> pydict \<Rightarrow> 'dt invoice_data validated" where
  "invoice_fields P d =
     ap (ap (ap (ap (ap (ap (ap (ap (ap (ap (ap (ap (ap (ap (ap
       (Inr (\<lambda>oid rest cn en dh its sub te ts gj tot pg ee tp et.
               \<lparr>order_id = oid, restaurante = rest, cnpj = cn, endereco = en, data_hora = dh,
                itens = its, subtotal = sub, taxa_entrega = te, taxa_servico = ts,
                gorjeta = gj, invoice_total = tot, pagamento = pg, endereco_entrega = ee,
                tempo_entrega = tp, entregador = et\<rparr>))
       (required d ''order_id'' (str_min P 1)))
       (required d ''restaurante'' (str_min P 1)))
       (with_default d ''cnpj'' None (optional_str P)))
       (with_default d ''endereco'' None (optional_str P)))
       (required d ''data_hora'' (datetime_field P)))
       (required d ''itens'' (items_field P)))
       (required d ''subtotal'' (float_ge P 0)))
       (with_default d ''taxa_entrega'' 0 (float_ge P 0)))
       (with_default d ''taxa_servico'' 0 (float_ge P 0)))
       (with_default d ''gorjeta'' 0 (float_ge P 0)))
       (required d ''total'' (float_ge P 0)))
       (with_default d ''pagamento'' None (optional_str P)))
       (with_default d ''endereco_entrega'' None (optional_str P)))
       (with_default d ''tempo_entrega'' None (optional_str P)))
       (with_default d ''entregador'' None (optional_str P))"

text \<open>
  \<open>InvoiceData(**extraction)\<close>: keys that are not fields are ignored.  The model validator
  runs only when every field is valid.  The library reports the \<^verbatim>\<open>ValueError\<close> of a model
  validator as an error of the model as a whole: its location is the empty tuple \<^verbatim>\<open>()\<close>,
  while the error of a field validator is located at its field.
\<close>

definition new_InvoiceData :: "'dt pydantic \<Rightarrow> pydict \<Rightarrow> 'dt invoice_data validated" where
  "new_InvoiceData P d =
     (case invoice_fields P d of
        Inl es \<Rightarrow> Inl es
      | Inr self \<Rightarrow>
          (case validate_invoice_total self of
             Inl m \<Rightarrow> invalid m
           | Inr self' \<Rightarrow> Inr self'))"

subsection \<open>\<open>ExtractionResult\<close>\<close>

record 'dt extraction_result =
  er_invoice_data :: "'dt invoice_data"
  er_file_key :: string
  er_provider :: string
  er_model :: string
  er_tokens_used :: int
  er_cost :: pyfloat
  er_latency_ms :: pyfloat
  er_confidence :: pyfloat
  er_validation_passed :: bool
  er_validation_errors :: "string list"

definition int_any :: "'dt pydantic \<Rightarrow> pyval \<Rightarrow> int validated" where
  "int_any P v = (case as_int P v of None \<Rightarrow> invalid InvalidType | Some n \<Rightarrow> Inr n)"

definition float_any :: "'dt pydantic \<Rightarrow> pyval \<Rightarrow> pyfloat validated" where
  "float_any P v = (case as_float P v of None \<Rightarrow> invalid InvalidType | Some x \<Rightarrow> Inr x)"

text \<open>
  The constructor call of \<open>validate_extractions\<close>: the invoice is passed as a model
  instance, \<open>validation_passed=True\<close> and \<open>validation_errors=[]\<close> are literals, the other
  arguments come from the extraction dictionary.
\<close>

definition new_ExtractionResult ::
  "'dt pydantic \<Rightarrow> 'dt invoice_data \<Rightarrow> pyval \<Rightarrow> pyval \<Rightarrow> pyval \<Rightarrow> pyval \<Rightarrow> pyval \<Rightarrow> pyval
     \<Rightarrow> 'dt extraction_result validated"
where
  "new_ExtractionResult P invoice fk prov mdl tok cst lat =
     ap (ap (ap (ap (ap (ap
       (Inr (\<lambda>a b c d e f.
               \<lparr>er_invoice_data = invoice, er_file_key = a, er_provider = b, er_model = c,
                er_tokens_used = d, er_cost = e, er_latency_ms = f, er_confidence = 1,
                er_validation_passed = True, er_validation_errors = []\<rparr>))
       (outer (AtField ''file_key'') (str_min P 0 fk)))
       (outer (AtField ''provider'') (str_min P 0 prov)))
       (outer (AtField ''model'') (str_min P 0 mdl)))
       (outer (AtField ''tokens_used'') (int_any P tok)))
       (outer (AtField ''cost'') (float_any P cst)))
       (outer (AtField ''latency_ms'') (float_any P lat))"

section \<open>Validator stage: \<open>validate_extractions\<close>\<close>

text \<open>
  \<^verbatim>\<open>error_details = [f"{err['loc'][0]}: {err['msg']}" for err in e.errors()]\<close>:
  indexing an empty location tuple raises \<^verbatim>\<open>IndexError\<close>.
\<close>

definition show_loc :: "loc_item \<Rightarrow> string" where
  "show_loc l = (case l of AtField name \<Rightarrow> name | AtIndex i \<Rightarrow> show_nat i)"

definition error_detail :: "'dt pydantic \<Rightarrow> line_error \<Rightarrow> py_exn + string" where
  "error_detail P err =
     (case loc err of
        [] \<Rightarrow> Inl (IndexError ''tuple index out of range'')
      | l # ls \<Rightarrow> Inr (show_loc l @ '': '' @ show_msg P (msg err)))"

definition error_details :: "'dt pydantic \<Rightarrow> line_error list \<Rightarrow> py_exn + string list" where
  "error_details P errs = try_map (error_detail P) errs"

text \<open>
  The body of the \<^verbatim>\<open>try\<close>: \<open>Inr (Inl errs)\<close> is a \<^verbatim>\<open>ValidationError\<close>, which the handler
  below catches; \<open>Inl e\<close> is any other exception, which leaves the function.
\<close>

definition try_validate ::
  "'dt pydantic \<Rightarrow> pydict \<Rightarrow> py_exn + (line_error list + 'dt extraction_result)" where
  "try_validate P extraction =
     (case new_InvoiceData P extraction of
        Inl errs \<Rightarrow> Inr (Inl errs)
      | Inr validated_invoice \<Rightarrow>
          (case py_item extraction ''file_key'' of
             Inl e \<Rightarrow> Inl e
           | Inr fk \<Rightarrow>
               Inr (new_ExtractionResult P validated_invoice fk
                      (get_or extraction ''provider'' (PStr ''unknown''))
                      (get_or extraction ''model'' (PStr ''unknown''))
                      (get_or extraction ''tokens_used'' (PInt 0))
                      (get_or extraction ''cost'' (PFloat 0))
                      (get_or extraction ''latency_ms'' (PFloat 0)))))"

text \<open>
  One iteration of the loop of \<open>validate_extractions\<close>; the result is the dictionary
  appended to \<open>validated_results\<close>.
  \<^verbatim>\<open>
  if extraction.get("status") == "failed":
      validated_results.append(extraction)
      continue
  try:
      validated_invoice = InvoiceData(**extraction)
      extraction_result = ExtractionResult(invoice_data=validated_invoice, ...)
      validated_results.append({**extraction, "validation_passed": True,
                                "status": "success"})
      logger.info(f"... {extraction['file_key']}")
  except ValidationError as e:
      error_details = [f"{err['loc'][0]}: {err['msg']}" for err in e.errors()]
      logger.warning(f"... {extraction['file_key']}: {error_details}")
      validated_results.append({**extraction, "validation_passed": False,
                                "validation_errors": error_details,
                                "status": "needs_review"})
  \<close>
\<close>

definition validate_extraction :: "'dt pydantic \<Rightarrow> pydict \<Rightarrow> py_exn + pydict" where
  "validate_extraction P extraction =
     (if py_get extraction ''status'' = PStr ''failed'' then Inr extraction
      else
        (case try_validate P extraction of
           Inl e \<Rightarrow> Inl e
         | Inr (Inr extraction_result) \<Rightarrow>
             Inr (py_set ''status'' (PStr ''success'')
                   (py_set ''validation_passed'' (PBool True) extraction))
         | Inr (Inl errs) \<Rightarrow>
             (case error_details P errs of
                Inl e \<Rightarrow> Inl e
              | Inr details \<Rightarrow>
                  (case py_item extraction ''file_key'' of
                     Inl e \<Rightarrow> Inl e
                   | Inr fk \<Rightarrow>
                       Inr (py_set ''status'' (PStr ''needs_review'')
                             (py_set ''validation_errors'' (PList (map PStr details))
                               (py_set ''validation_passed'' (PBool False) extraction)))))))"

text \<open>
  The whole stage.  The count of passed records at its end is only logged.
\<close>

definition validate_extractions :: "'dt pydantic \<Rightarrow> pydict list \<Rightarrow> py_exn + pydict list" where
  "validate_extractions P extractions = try_map (validate_extraction P) extractions"

subsection \<open>A sample library instance and sample extractions\<close>

text \<open>
  For the concrete runs: conversions that accept exactly the JSON type of the field
  (numbers of either kind for a float), timestamps of the shape
  \<^verbatim>\<open>YYYY-MM-DDTHH:MM:SS\<close> with an optional \<^verbatim>\<open>+00:00\<close>, kept as their text, and short
  message texts.
\<close>

definition is_digit :: "char \<Rightarrow> bool" where
  "is_digit c = (c \<in> set ''0123456789'')"

definition sample_iso :: "string \<Rightarrow> string option" where
  "sample_iso s =
     (let body = take 19 s; rest = drop 19 s
      in if length body = 19
            \<and> list_all is_digit (take 4 body) \<and> body ! 4 = CHR ''-''
            \<and> list_all is_digit (take 2 (drop 5 body)) \<and> body ! 7 = CHR ''-''
            \<and> list_all is_digit (take 2 (drop 8 body)) \<and> body ! 10 = CHR ''T''
            \<and> list_all is_digit (take 2 (drop 11 body)) \<and> body ! 13 = CHR '':''
            \<and> list_all is_digit (take 2 (drop 14 body)) \<and> body ! 16 = CHR '':''
            \<and> list_all is_digit (take 2 (drop 17 body))
            \<and> (rest = [] \<or> rest = ''+00:00'')
         then Some s else None)"

definition sample_msg :: "err_msg \<Rightarrow> string" where
  "sample_msg m =
     (case m of
        FieldRequired \<Rightarrow> ''Field required''
      | InvalidType \<Rightarrow> ''Input should be a valid value''
      | TooShort \<Rightarrow> ''Input is too short''
      | BelowMinimum \<Rightarrow> ''Input is below the minimum''
      | ItemTotalMismatch v e \<Rightarrow> ''Value error, Item total mismatch''
      | InvoiceTotalMismatch v e \<Rightarrow> ''Value error, Invoice total mismatch''
      | SubtotalMismatch v e \<Rightarrow> ''Value error, Subtotal mismatch''
      | InvalidDatetime s \<Rightarrow> ''Value error, Invalid datetime format: '' @ s)"

definition sample_lib :: "string pydantic" where
  "sample_lib =
     \<lparr>as_str = (\<lambda>v. case v of PStr s \<Rightarrow> Some s | _ \<Rightarrow> None),
      as_int = (\<lambda>v. case v of PInt n \<Rightarrow> Some n | _ \<Rightarrow> None),
      as_float = (\<lambda>v. case v of PFloat x \<Rightarrow> Some x | PInt n \<Rightarrow> Some (of_int n) | _ \<Rightarrow> None),
      as_datetime = (\<lambda>v. None),
      fromisoformat = sample_iso,
      show_msg = sample_msg\<rparr>"

text \<open>
  An extraction as \<open>process_batch_with_llm\<close> returns it: two burgers at 12.50, subtotal
  25.00, delivery fee 5.00, total 30.00.
\<close>

definition burger :: pyval where
  "burger = PDict [(''nome'', PStr ''Burger''), (''quantidade'', PInt 2),
                   (''preco_unitario'', PFloat (1250 / 100)), (''preco_total'', PFloat 25)]"

definition good_extraction :: pydict where
  "good_extraction =
     [(''order_id'', PStr ''ORD-1''), (''restaurante'', PStr ''Casa''),
      (''cnpj'', PNone), (''endereco'', PStr ''Rua A''),
      (''data_hora'', PStr ''2024-01-15T12:30:00Z''),
      (''itens'', PList [burger]),
      (''subtotal'', PFloat 25), (''taxa_entrega'', PFloat 5), (''taxa_servico'', PFloat 0),
      (''gorjeta'', PFloat 0), (''total'', PFloat 30),
      (''pagamento'', PStr ''card''), (''endereco_entrega'', PStr ''Rua B''),
      (''tempo_entrega'', PStr ''30 min''), (''entregador'', PNone),
      (''file_key'', PStr ''incoming/a.pdf''), (''provider'', PStr ''openai''),
      (''model'', PStr ''gpt-4o-mini''), (''tokens_used'', PInt 1500),
      (''cost'', PFloat (45 / 100000)), (''latency_ms'', PFloat 812),
      (''processed_at'', PStr ''2024-01-16T08:00:00'')]"

text \<open>The same extraction with a total of 99.00, with a subtotal of 20.00 (and total 25.00),
  and with an item total of 20.00.\<close>

definition bad_total :: pydict where
  "bad_total = py_set ''total'' (PFloat 99) good_extraction"

definition bad_subtotal :: pydict where
  "bad_subtotal = py_set ''total'' (PFloat 25) (py_set ''subtotal'' (PFloat 20) good_extraction)"

definition bad_item :: pydict where
  "bad_item =
     py_set ''itens''
       (PList [PDict [(''nome'', PStr ''Burger''), (''quantidade'', PInt 2),
                      (''preco_unitario'', PFloat (1250 / 100)), (''preco_total'', PFloat 20)]])
       (py_set ''total'' (PFloat 25) (py_set ''subtotal'' (PFloat 20) good_extraction))"

definition failed_extraction :: pydict where
  "failed_extraction =
     [(''file_key'', PStr ''incoming/b.pdf''), (''status'', PStr ''failed''),
      (''error'', PStr ''No text extracted'')]"

text \<open>A result whose errors all carry a non-empty location.\<close>

definition located :: "'a validated \<Rightarrow> bool" where
  "located r = (case r of Inl es \<Rightarrow> \<forall>e \<in> set es. loc e \<noteq> [] | Inr a \<Rightarrow> True)"

section \<open>Text extractor and extraction stage\<close>

text \<open>The \<open>LLMResponse\<close> dataclass.\<close>

record llm_response =
  r_content :: string
  r_provider :: string
  r_model :: string
  r_tokens_used :: int
  r_cost :: pyfloat
  r_latency_ms :: pyfloat
  r_confidence :: pyfloat

text \<open>
  The collaborators of the two tasks.  \<open>read_pdf bucket key\<close> is the text and the page
  count that the object store and the PDF library give for a key, or the exception they
  raise.  \<open>extract_invoice_data\<close> is the call of the selected provider; it acts on the
  outside world, whose state \<open>'w\<close> is threaded through the calls in the order in which
  they are made.  \<open>json_loads\<close> is \<^verbatim>\<open>json.loads\<close>, and \<open>now_isoformat\<close> reads the clock.
\<close>

record 'w collaborators =
  read_pdf :: "string \<Rightarrow> string \<Rightarrow> py_exn + (string \<times> nat)"
  extract_invoice_data :: "provider \<Rightarrow> pyval \<Rightarrow> 'w \<Rightarrow> (py_exn + llm_response) \<times> 'w"
  json_loads :: "string \<Rightarrow> py_exn + pyval"
  now_isoformat :: "'w \<Rightarrow> string"

text \<open>
  \<^verbatim>\<open>
  for key in batch_keys:
      try:
          ... read the object, extract the text of every page ...
          batch_data.append({"file_key": key, "text": text_content,
                             "num_pages": len(pdf_reader.pages)})
      except Exception as e:
          batch_data.append({"file_key": key, "text": "", "error": str(e)})
  \<close>
\<close>

definition extract_batch_texts :: "'w collaborators \<Rightarrow> string \<Rightarrow> string list \<Rightarrow> pydict list" where
  "extract_batch_texts io bucket batch_keys =
     map (\<lambda>key. case read_pdf io bucket key of
                  Inr (text_content, num_pages) \<Rightarrow>
                    [(''file_key'', PStr key), (''text'', PStr text_content),
                     (''num_pages'', PInt (int num_pages))]
                | Inl e \<Rightarrow>
                    [(''file_key'', PStr key), (''text'', PStr []),
                     (''error'', PStr (exn_str e))])
       batch_keys"

text \<open>The dictionary \<^verbatim>\<open>{"file_key": ..., "status": "failed", "error": ...}\<close>.\<close>

definition failed_entry :: "pyval \<Rightarrow> pyval \<Rightarrow> pydict" where
  "failed_entry fk err = [(''file_key'', fk), (''status'', PStr ''failed''), (''error'', err)]"

text \<open>
  The body of the \<^verbatim>\<open>try\<close> in the loop of \<open>process_batch_with_llm\<close>:
  \<^verbatim>\<open>
  llm_response = provider.extract_invoice_data(pdf_text=pdf_data["text"], ...)
  invoice_data = json.loads(llm_response.content)
  invoice_data.update({"file_key": pdf_data["file_key"],
                       "provider": llm_response.provider, "model": llm_response.model,
                       "tokens_used": llm_response.tokens_used, "cost": llm_response.cost,
                       "latency_ms": llm_response.latency_ms,
                       "processed_at": datetime.now().isoformat()})
  results.append(invoice_data)
  \<close>
  Only a dictionary has the method \<open>update\<close>: on any other value the call raises
  \<^verbatim>\<open>AttributeError\<close> with the message \<^verbatim>\<open>'list' object has no attribute 'update'\<close> (for a
  list; the type named is that of the value).
\<close>

definition call_llm ::
  "'w collaborators \<Rightarrow> provider \<Rightarrow> pydict \<Rightarrow> 'w \<Rightarrow> (py_exn + pydict) \<times> 'w" where
  "call_llm io p pdf_data w =
     (case py_item pdf_data ''text'' of
        Inl e \<Rightarrow> (Inl e, w)
      | Inr text \<Rightarrow>
          (case extract_invoice_data io p text w of
             (Inl e, w') \<Rightarrow> (Inl e, w')
           | (Inr llm_response, w') \<Rightarrow>
               (case json_loads io (r_content llm_response) of
                  Inl e \<Rightarrow> (Inl e, w')
                | Inr (PDict invoice_data) \<Rightarrow>
                    (case py_item pdf_data ''file_key'' of
                       Inl e \<Rightarrow> (Inl e, w')
                     | Inr fk \<Rightarrow>
                         (Inr (py_set ''processed_at'' (PStr (now_isoformat io w'))
                               (py_set ''latency_ms'' (PFloat (r_latency_ms llm_response))
                               (py_set ''cost'' (PFloat (r_cost llm_response))
                               (py_set ''tokens_used'' (PInt (r_tokens_used llm_response))
                               (py_set ''model'' (PStr (r_model llm_response))
                               (py_set ''provider'' (PStr (r_provider llm_response))
                               (py_set ''file_key'' fk invoice_data))))))),
                          w'))
                | Inr other \<Rightarrow>
                    (Inl (AttributeError (quoted (type_name other)
                                          @ '' object has no attribute '' @ quoted ''update'')),
                     w'))))"

text \<open>
  One iteration of the loop:
  \<^verbatim>\<open>
  if "error" in pdf_data or not pdf_data.get("text"):
      results.append({"file_key": pdf_data["file_key"], "status": "failed",
                      "error": pdf_data.get("error", "No text extracted")})
      continue
  try:
      ...
  except Exception as e:
      results.append({"file_key": pdf_data["file_key"], "status": "failed",
                      "error": str(e)})
  \<close>
\<close>

definition process_document ::
  "'w collaborators \<Rightarrow> provider \<Rightarrow> pydict \<Rightarrow> 'w \<Rightarrow> (py_exn + pydict) \<times> 'w" where
  "process_document io p pdf_data w =
     (if map_of pdf_data ''error'' \<noteq> None \<or> \<not> truthy (py_get pdf_data ''text'') then
        (case py_item pdf_data ''file_key'' of
           Inl e \<Rightarrow> (Inl e, w)
         | Inr fk \<Rightarrow>
             (Inr (failed_entry fk (get_or pdf_data ''error'' (PStr ''No text extracted''))), w))
      else
        (case call_llm io p pdf_data w of
           (Inr invoice_data, w') \<Rightarrow> (Inr invoice_data, w')
         | (Inl e, w') \<Rightarrow>
             (case py_item pdf_data ''file_key'' of
                Inl e' \<Rightarrow> (Inl e', w')
              | Inr fk \<Rightarrow> (Inr (failed_entry fk (PStr (exn_str e))), w'))))"

fun process_documents ::
  "'w collaborators \<Rightarrow> provider \<Rightarrow> pydict list \<Rightarrow> 'w \<Rightarrow> (py_exn + pydict list) \<times> 'w" where
  "process_documents io p [] w = (Inr [], w)"
| "process_documents io p (pdf_data # rest) w =
     (case process_document io p pdf_data w of
        (Inl e, w') \<Rightarrow> (Inl e, w')
      | (Inr r, w') \<Rightarrow>
          (case process_documents io p rest w' of
             (Inl e, w'') \<Rightarrow> (Inl e, w'')
           | (Inr rs, w'') \<Rightarrow> (Inr (r # rs), w'')))"

text \<open>
  \<^verbatim>\<open>
  try:
      provider = LLMProviderFactory.get_primary_provider()
  except Exception as e:
      return [{"file_key": d["file_key"], "status": "failed", "error": str(e)}
              for d in batch_data]
  results = []
  for pdf_data in batch_data: ...
  return results
  \<close>
\<close>

definition process_batch_with_llm ::
  "sys \<Rightarrow> 'w collaborators \<Rightarrow> pydict list \<Rightarrow> 'w \<Rightarrow> (py_exn + pydict list) \<times> 'w" where
  "process_batch_with_llm sy io batch_data w =
     (case get_primary_provider sy None None of
        Inl e \<Rightarrow>
          (try_map (\<lambda>d. case py_item d ''file_key'' of
                          Inl e' \<Rightarrow> Inl e'
                        | Inr fk \<Rightarrow> Inr (failed_entry fk (PStr (exn_str e))))
             batch_data, w)
      | Inr p \<Rightarrow> process_documents io p batch_data w)"

subsection \<open>Sample collaborators\<close>

text \<open>
  An environment in which every vendor client can be constructed, and collaborators whose
  world state counts the provider calls: the object \<^verbatim>\<open>incoming/corrupt.pdf\<close> cannot be
  read, the text \<^verbatim>\<open>timeout\<close> makes the provider call raise, the text \<^verbatim>\<open>garbled\<close> makes
  the provider answer with text that is not JSON.
\<close>

definition ready_sys :: sys where
  "ready_sys = \<lparr>environ = (\<lambda>name. None), sdk_init = (\<lambda>v key m. None)\<rparr>"

definition sample_io :: "nat collaborators" where
  "sample_io =
     \<lparr>read_pdf = (\<lambda>bucket key.
          if key = ''incoming/corrupt.pdf'' then Inl (OtherError ''EOF marker not found'')
          else if key = ''incoming/slow.pdf'' then Inr (''timeout'', 1)
          else if key = ''incoming/odd.pdf'' then Inr (''garbled'', 1)
          else Inr (''Pedido ORD-1'', 1)),
      extract_invoice_data = (\<lambda>p text w.
          if text = PStr ''timeout'' then (Inl (OtherError ''request timed out''), Suc w)
          else (Inr \<lparr>r_content = (if text = PStr ''garbled'' then ''not json'' else ''{}''),
                     r_provider = provider_name p, r_model = model p, r_tokens_used = 1500,
                     r_cost = calculate_cost p 1000 500, r_latency_ms = 812,
                     r_confidence = 1\<rparr>, Suc w)),
      json_loads = (\<lambda>s. if s = ''{}'' then Inr (PDict [])
                         else Inl (ValueError ''Expecting value'')),
      now_isoformat = (\<lambda>w. ''2024-01-16T08:00:00'')\<rparr>"

definition sample_batch :: "pydict list" where
  "sample_batch =
     extract_batch_texts sample_io ''invoices''
       [''incoming/a.pdf'', ''incoming/corrupt.pdf'', ''incoming/slow.pdf'',
        ''incoming/odd.pdf'', ''incoming/b.pdf'']"

section \<open>Persistence: \<open>store_to_database\<close>\<close>

text \<open>
  The table \<open>invoices.invoices\<close> is the list of its rows in the order of insertion.  A
  column holds the Python value handed to the driver, \<open>PNone\<close> being SQL \<open>NULL\<close>; the
  JSONB columns hold the value that \<^verbatim>\<open>json.dumps\<close> serialises.  The serial \<open>id\<close> is left
  out.  \<open>order_datetime\<close> is a parsed \<^verbatim>\<open>datetime\<close> when \<open>data_hora\<close> was a string and the
  value as it is otherwise.
\<close>

datatype 'dt dt_col = Parsed 'dt | Raw pyval

record ('dt, 'ts) invoice_row =
  col_order_id :: pyval
  col_restaurant :: pyval
  col_cnpj :: pyval
  col_address :: pyval
  col_order_datetime :: "'dt dt_col"
  col_items :: pyval
  col_subtotal :: pyval
  col_delivery_fee :: pyval
  col_service_fee :: pyval
  col_tip :: pyval
  col_total :: pyval
  col_payment_method :: pyval
  col_delivery_address :: pyval
  col_delivery_time :: pyval
  col_delivery_person :: pyval
  col_file_key :: pyval
  col_provider :: pyval
  col_model :: pyval
  col_tokens_used :: pyval
  col_cost :: pyval
  col_latency_ms :: pyval
  col_validation_passed :: pyval
  col_validation_errors :: pyval
  col_raw_data :: pydict
  col_processed_at :: pyval
  col_created_at :: 'ts
  col_updated_at :: 'ts

text \<open>
  \<^verbatim>\<open>
  CREATE TABLE IF NOT EXISTS invoices.invoices (
      id SERIAL PRIMARY KEY, order_id VARCHAR(100) UNIQUE, restaurant VARCHAR(255),
      cnpj VARCHAR(20), address TEXT, order_datetime TIMESTAMP, items JSONB,
      subtotal NUMERIC(10,2), delivery_fee NUMERIC(10,2), service_fee NUMERIC(10,2),
      tip NUMERIC(10,2), total NUMERIC(10,2), payment_method VARCHAR(100),
      delivery_address TEXT, delivery_time VARCHAR(50), delivery_person VARCHAR(100),
      file_key VARCHAR(255), provider VARCHAR(50), model VARCHAR(100),
      tokens_used INTEGER, cost NUMERIC(10,4), latency_ms NUMERIC(10,2),
      validation_passed BOOLEAN, validation_errors JSONB, raw_data JSONB,
      processed_at TIMESTAMP, created_at TIMESTAMP DEFAULT CURRENT_TIMESTAMP,
      updated_at TIMESTAMP DEFAULT CURRENT_TIMESTAMP);
  \<close>
  The columns are typed and bounded, so \<^verbatim>\<open>cursor.execute\<close> does not succeed for every
  parameter tuple.  What it does with one \<open>INSERT\<close> is one of three things:

    \<^item> \<open>Accepted\<close>: the statement is executed;

    \<^item> \<open>DriverError\<close>: the driver cannot adapt a parameter (a \<^verbatim>\<open>dict\<close>, say) and raises
      before anything is sent, so the transaction goes on;

    \<^item> \<open>ServerError\<close>: the server rejects the statement (a total that does not fit
      \<open>NUMERIC(10,2)\<close>, a text in a numeric column, an order id longer than 100
      characters) and \<^verbatim>\<open>cursor.execute\<close> raises.  All statements of one invocation run
      in one transaction of the one connection; the server aborts it, refuses every
      later statement, and answers the \<^verbatim>\<open>conn.commit()\<close> at the end by rolling back.
\<close>

datatype db_verdict = Accepted | DriverError | ServerError

text \<open>
  What one invocation takes from outside: \<^verbatim>\<open>datetime.fromisoformat\<close>, the text of
  \<^verbatim>\<open>datetime.now().timestamp()\<close> at the \<open>n\<close>-th reading of the clock, the
  \<open>CURRENT_TIMESTAMP\<close> of the transaction, and the verdict of driver and server on the
  parameter tuple of an \<open>INSERT\<close> in a transaction that is not aborted.  The connection
  is taken to stay open.
\<close>

record ('dt, 'ts) db_env =
  db_fromisoformat :: "string \<Rightarrow> 'dt option"
  py_timestamp :: "nat \<Rightarrow> string"
  current_timestamp :: 'ts
  execute_verdict :: "('dt, 'ts) invoice_row \<Rightarrow> db_verdict"

text \<open>
  \<^verbatim>\<open>
  order_datetime = data.get("data_hora")
  if isinstance(order_datetime, str):
      order_datetime = datetime.fromisoformat(order_datetime.replace('Z', '+00:00'))
  \<close>
\<close>

definition order_datetime_of :: "('dt, 'ts) db_env \<Rightarrow> pydict \<Rightarrow> py_exn + 'dt dt_col" where
  "order_datetime_of env data =
     (case py_get data ''data_hora'' of
        PStr s \<Rightarrow>
          (case db_fromisoformat env (py_replace ''Z'' ''+00:00'' s) of
             None \<Rightarrow> Inl (ValueError (''Invalid isoformat string: '' @ s))
           | Some dt \<Rightarrow> Inr (Parsed dt))
      | v \<Rightarrow> Inr (Raw v))"

text \<open>
  The parameter tuple of the \<open>INSERT\<close>, with the two timestamp columns at their default
  \<open>CURRENT_TIMESTAMP\<close>.  \<open>n\<close> is the number of clock readings made before.
\<close>

definition insert_params ::
  "('dt, 'ts) db_env \<Rightarrow> nat \<Rightarrow> pydict \<Rightarrow> py_exn + ('dt, 'ts) invoice_row" where
  "insert_params env n data =
     (case order_datetime_of env data of
        Inl e \<Rightarrow> Inl e
      | Inr order_datetime \<Rightarrow>
          Inr \<lparr>col_order_id = get_or data ''order_id'' (PStr (''UNKNOWN_'' @ py_timestamp env n)),
               col_restaurant = py_get data ''restaurante'',
               col_cnpj = py_get data ''cnpj'',
               col_address = py_get data ''endereco'',
               col_order_datetime = order_datetime,
               col_items = get_or data ''itens'' (PList []),
               col_subtotal = get_or data ''subtotal'' (PInt 0),
               col_delivery_fee = get_or data ''taxa_entrega'' (PInt 0),
               col_service_fee = get_or data ''taxa_servico'' (PInt 0),
               col_tip = get_or data ''gorjeta'' (PInt 0),
               col_total = get_or data ''total'' (PInt 0),
               col_payment_method = py_get data ''pagamento'',
               col_delivery_address = py_get data ''endereco_entrega'',
               col_delivery_time = py_get data ''tempo_entrega'',
               col_delivery_person = py_get data ''entregador'',
               col_file_key = py_get data ''file_key'',
               col_provider = py_get data ''provider'',
               col_model = py_get data ''model'',
               col_tokens_used = get_or data ''tokens_used'' (PInt 0),
               col_cost = get_or data ''cost'' (PFloat 0),
               col_latency_ms = get_or data ''latency_ms'' (PFloat 0),
               col_validation_passed = get_or data ''validation_passed'' (PBool False),
               col_validation_errors = get_or data ''validation_errors'' (PList []),
               col_raw_data = data,
               col_processed_at = py_get data ''processed_at'',
               col_created_at = current_timestamp env,
               col_updated_at = current_timestamp env\<rparr>)"

text \<open>
  \<^verbatim>\<open>
  INSERT INTO invoices.invoices (...) VALUES (...)
  ON CONFLICT (order_id) DO UPDATE SET
      updated_at = CURRENT_TIMESTAMP,
      raw_data = EXCLUDED.raw_data
  \<close>
  \<open>order_id\<close> is \<open>UNIQUE\<close>; a \<open>NULL\<close> never conflicts.
\<close>

definition insert_on_conflict ::
  "('dt, 'ts) invoice_row \<Rightarrow> ('dt, 'ts) invoice_row list \<Rightarrow> ('dt, 'ts) invoice_row list" where
  "insert_on_conflict new tbl =
     (if col_order_id new \<noteq> PNone \<and> (\<exists>r \<in> set tbl. col_order_id r = col_order_id new)
      then map (\<lambda>r. if col_order_id r = col_order_id new
                     then r\<lparr>col_updated_at := col_updated_at new,
                            col_raw_data := col_raw_data new\<rparr>
                     else r) tbl
      else tbl @ [new])"

text \<open>
  The table as the open transaction sees it, whether the transaction is aborted, and
  the local variables of the loop, with the number of clock readings.
\<close>

record ('dt, 'ts) store_state =
  table_rows :: "('dt, 'ts) invoice_row list"
  success_count :: nat
  failed_count :: nat
  clock_reads :: nat
  aborted :: bool

text \<open>
  The body of the loop:
  \<^verbatim>\<open>
  if data.get("status") == "failed":
      failed_count += 1
      continue
  try:
      ... order_datetime ...
      cursor.execute("INSERT ...", (data.get("order_id", f"UNKNOWN_{...}"), ...))
      success_count += 1
  except Exception as e:
      failed_count += 1
  \<close>
  \<^verbatim>\<open>fromisoformat\<close> raises before the parameter tuple is built; once the tuple is built
  the clock has been read, whatever \<^verbatim>\<open>execute\<close> does then.  In an aborted transaction
  \<^verbatim>\<open>execute\<close> raises for every statement.
\<close>

definition store_row ::
  "('dt, 'ts) db_env \<Rightarrow> pydict \<Rightarrow> ('dt, 'ts) store_state \<Rightarrow> ('dt, 'ts) store_state" where
  "store_row env data st =
     (if py_get data ''status'' = PStr ''failed''
      then st\<lparr>failed_count := failed_count st + 1\<rparr>
      else (case insert_params env (clock_reads st) data of
              Inl e \<Rightarrow> st\<lparr>failed_count := failed_count st + 1\<rparr>
            | Inr new \<Rightarrow>
                if \<not> aborted st \<and> execute_verdict env new = Accepted
                then st\<lparr>table_rows := insert_on_conflict new (table_rows st),
                        success_count := success_count st + 1,
                        clock_reads := clock_reads st + 1\<rparr>
                else st\<lparr>failed_count := failed_count st + 1,
                        clock_reads := clock_reads st + 1,
                        aborted := (aborted st \<or> execute_verdict env new = ServerError)\<rparr>))"

text \<open>\<^verbatim>\<open>for data in validated_data: ...\<close>\<close>

fun store_rows ::
  "('dt, 'ts) db_env \<Rightarrow> pydict list \<Rightarrow> ('dt, 'ts) store_state \<Rightarrow> ('dt, 'ts) store_state" where
  "store_rows env [] st = st"
| "store_rows env (data # rest) st = store_rows env rest (store_row env data st)"

text \<open>
  The task: the table after \<^verbatim>\<open>conn.commit()\<close> and the returned counters.  The commit of
  an aborted transaction is a rollback: the table is then the one from before the
  invocation, while the counters are returned as counted.  The schema statements at the
  start leave an existing table as it is.
\<close>

definition store_to_database ::
  "('dt, 'ts) db_env \<Rightarrow> pydict list \<Rightarrow> ('dt, 'ts) invoice_row list
     \<Rightarrow> ('dt, 'ts) invoice_row list \<times> pydict" where
  "store_to_database env validated_data tbl =
     (let st = store_rows env validated_data
                 \<lparr>table_rows = tbl, success_count = 0, failed_count = 0, clock_reads = 0,
                  aborted = False\<rparr>
      in (if aborted st then tbl else table_rows st,
          [(''success_count'', PInt (int (success_count st))),
           (''failed_count'', PInt (int (failed_count st))),
           (''total_processed'', PInt (int (length validated_data)))]))"

subsection \<open>Sample invocations\<close>

text \<open>
  A sample database for the concrete runs.  It enforces the declared columns on the
  values that the sample records carry: a value for a \<open>NUMERIC(p,s)\<close> column is \<open>NULL\<close>
  or a number that, rounded to \<open>s\<close> decimals, is below \<open>10 ^ (p - s)\<close> in absolute value;
  a value for a \<open>VARCHAR(n)\<close> column is \<open>NULL\<close> or a text of at most \<open>n\<close> characters; a
  value for \<open>INTEGER\<close> is \<open>NULL\<close> or a 32-bit integer; a timestamp is \<open>NULL\<close>, a parsed
  \<^verbatim>\<open>datetime\<close> or a text of the sample timestamp shape.  A \<^verbatim>\<open>dict\<close> among the parameters
  passed as they are stops the driver; any other value is rejected by the server.
\<close>

definition fits_numeric :: "nat \<Rightarrow> nat \<Rightarrow> pyval \<Rightarrow> bool" where
  "fits_numeric p s v =
     (case v of
        PNone \<Rightarrow> True
      | PInt i \<Rightarrow> \<bar>of_int i :: rat\<bar> * 10 ^ s + 1 / 2 < 10 ^ p
      | PFloat x \<Rightarrow> \<bar>x\<bar> * 10 ^ s + 1 / 2 < 10 ^ p
      | _ \<Rightarrow> False)"

definition fits_varchar :: "nat \<Rightarrow> pyval \<Rightarrow> bool" where
  "fits_varchar n v = (case v of PNone \<Rightarrow> True | PStr s \<Rightarrow> length s \<le> n | _ \<Rightarrow> False)"

definition fits_text :: "pyval \<Rightarrow> bool" where
  "fits_text v = (case v of PNone \<Rightarrow> True | PStr s \<Rightarrow> True | _ \<Rightarrow> False)"

definition fits_integer :: "pyval \<Rightarrow> bool" where
  "fits_integer v =
     (case v of PNone \<Rightarrow> True | PInt i \<Rightarrow> - (2 ^ 31) \<le> i \<and> i < 2 ^ 31 | _ \<Rightarrow> False)"

definition fits_boolean :: "pyval \<Rightarrow> bool" where
  "fits_boolean v = (case v of PNone \<Rightarrow> True | PBool b \<Rightarrow> True | _ \<Rightarrow> False)"

definition fits_timestamp :: "pyval \<Rightarrow> bool" where
  "fits_timestamp v =
     (case v of PNone \<Rightarrow> True | PStr s \<Rightarrow> sample_iso s \<noteq> None | _ \<Rightarrow> False)"

definition unadaptable :: "pyval \<Rightarrow> bool" where
  "unadaptable v = (case v of PDict kvs \<Rightarrow> True | _ \<Rightarrow> False)"

definition sample_verdict :: "(string, nat) invoice_row \<Rightarrow> db_verdict" where
  "sample_verdict r =
     (if list_ex unadaptable
           [col_order_id r, col_restaurant r, col_cnpj r, col_address r,
            (case col_order_datetime r of Parsed dt \<Rightarrow> PNone | Raw v \<Rightarrow> v),
            col_subtotal r, col_delivery_fee r, col_service_fee r, col_tip r, col_total r,
            col_payment_method r, col_delivery_address r, col_delivery_time r,
            col_delivery_person r, col_file_key r, col_provider r, col_model r,
            col_tokens_used r, col_cost r, col_latency_ms r, col_validation_passed r,
            col_processed_at r]
      then DriverError
      else if fits_varchar 100 (col_order_id r) \<and> fits_varchar 255 (col_restaurant r)
            \<and> fits_varchar 20 (col_cnpj r) \<and> fits_text (col_address r)
            \<and> (case col_order_datetime r of Parsed dt \<Rightarrow> True | Raw v \<Rightarrow> fits_timestamp v)
            \<and> fits_numeric 10 2 (col_subtotal r) \<and> fits_numeric 10 2 (col_delivery_fee r)
            \<and> fits_numeric 10 2 (col_service_fee r) \<and> fits_numeric 10 2 (col_tip r)
            \<and> fits_numeric 10 2 (col_total r)
            \<and> fits_varchar 100 (col_payment_method r) \<and> fits_text (col_delivery_address r)
            \<and> fits_varchar 50 (col_delivery_time r) \<and> fits_varchar 100 (col_delivery_person r)
            \<and> fits_varchar 255 (col_file_key r) \<and> fits_varchar 50 (col_provider r)
            \<and> fits_varchar 100 (col_model r) \<and> fits_integer (col_tokens_used r)
            \<and> fits_numeric 10 4 (col_cost r) \<and> fits_numeric 10 2 (col_latency_ms r)
            \<and> fits_boolean (col_validation_passed r) \<and> fits_timestamp (col_processed_at r)
      then Accepted
      else ServerError)"

text \<open>
  An invocation whose transaction starts at time \<open>t\<close>, and three validated records: the
  sample extraction marked \<open>success\<close>, a later extraction of the same order marked
  \<open>needs_review\<close>, and a record for review in which the provider gave no order id.
\<close>

definition db_at :: "nat \<Rightarrow> (string, nat) db_env" where
  "db_at t =
     \<lparr>db_fromisoformat = sample_iso,
      py_timestamp = (\<lambda>n. show_nat t @ ''.'' @ show_nat n),
      current_timestamp = t,
      execute_verdict = sample_verdict\<rparr>"

definition stored_good :: pydict where
  "stored_good =
     py_set ''status'' (PStr ''success'') (py_set ''validation_passed'' (PBool True) good_extraction)"



text \<open>
  Two more extractions that pass every check of the validator: another order of the
  same content, and a catering order of one item at 100000000.00, whose subtotal and
  total of 100000000.00 do not fit \<open>NUMERIC(10,2)\<close>.
\<close>

definition other_extraction :: pydict where
  "other_extraction =
     py_set ''file_key'' (PStr ''incoming/d.pdf'')
       (py_set ''order_id'' (PStr ''ORD-2'') good_extraction)"

definition large_extraction :: pydict where
  "large_extraction =
     py_set ''file_key'' (PStr ''incoming/e.pdf'')
       (py_set ''order_id'' (PStr ''ORD-3'')
         (py_set ''itens''
            (PList [PDict [(''nome'', PStr ''Catering''), (''quantidade'', PInt 1),
                           (''preco_unitario'', PFloat 100000000),
                           (''preco_total'', PFloat 100000000)]])
            (py_set ''subtotal'' (PFloat 100000000)
              (py_set ''taxa_entrega'' (PFloat 0)
                (py_set ''total'' (PFloat 100000000) good_extraction)))))"

definition stored_other :: pydict where
  "stored_other =
     py_set ''status'' (PStr ''success'') (py_set ''validation_passed'' (PBool True) other_extraction)"

definition stored_large :: pydict where
  "stored_large =
     py_set ''status'' (PStr ''success'') (py_set ''validation_passed'' (PBool True) large_extraction)"

section \<open>File lifecycle manager: \<open>move_processed_files\<close>\<close>

text \<open>
  The bucket is a map from object keys to contents.  \<open>copy_object\<close> raises when the
  source does not exist; beyond that, either call may fail for reasons outside the
  program, given by the two predicates on the source key.
\<close>

record faults =
  copy_fails :: "string \<Rightarrow> bool"
  remove_fails :: "string \<Rightarrow> bool"

definition copy_object ::
  "faults \<Rightarrow> (string \<Rightarrow> 'b option) \<Rightarrow> string \<Rightarrow> string \<Rightarrow> py_exn + (string \<Rightarrow> 'b option)" where
  "copy_object f objs new_key source =
     (case objs source of
        None \<Rightarrow> Inl (OtherError ''NoSuchKey'')
      | Some body \<Rightarrow>
          if copy_fails f source then Inl (OtherError ''copy failed'')
          else Inr (objs(new_key \<mapsto> body)))"

definition remove_object ::
  "faults \<Rightarrow> (string \<Rightarrow> 'b option) \<Rightarrow> string \<Rightarrow> py_exn + (string \<Rightarrow> 'b option)" where
  "remove_object f objs key =
     (if remove_fails f key then Inl (OtherError ''remove failed'') else Inr (objs(key := None)))"

text \<open>The bucket and the three lists of the task.\<close>

record 'b move_state =
  objects :: "string \<Rightarrow> 'b option"
  moved_success :: "string list"
  moved_failed :: "string list"
  moved_review :: "string list"

text \<open>
  \<^verbatim>\<open>
  if data.get("status") == "failed":
      new_key = file_key.replace("incoming/", "failed/")
      moved_failed.append(file_key)
  elif not data.get("validation_passed", True):
      new_key = file_key.replace("incoming/", "review/")
      moved_review.append(file_key)
  else:
      new_key = file_key.replace("incoming/", "processed/")
      moved_success.append(file_key)
  \<close>
\<close>

definition route :: "pydict \<Rightarrow> string \<Rightarrow> 'b move_state \<Rightarrow> string \<times> 'b move_state" where
  "route data file_key st =
     (if py_get data ''status'' = PStr ''failed'' then
        (py_replace ''incoming/'' ''failed/'' file_key,
         st\<lparr>moved_failed := moved_failed st @ [file_key]\<rparr>)
      else if \<not> truthy (get_or data ''validation_passed'' (PBool True)) then
        (py_replace ''incoming/'' ''review/'' file_key,
         st\<lparr>moved_review := moved_review st @ [file_key]\<rparr>)
      else
        (py_replace ''incoming/'' ''processed/'' file_key,
         st\<lparr>moved_success := moved_success st @ [file_key]\<rparr>))"

text \<open>
  One iteration of the loop.  A record without a file key is skipped; a file key that is
  not a string has no method \<open>replace\<close>, which the handler catches like a failure of the
  copy or of the delete.
  \<^verbatim>\<open>
  file_key = data.get("file_key")
  if not file_key:
      continue
  try:
      ... new_key ...
      client.copy_object(bucket, new_key, f"/{bucket}/{file_key}")
      client.remove_object(bucket, file_key)
  except Exception as e:
      logger.warning(f"Failed to move {file_key}: {e}")
  \<close>
\<close>

definition move_file :: "faults \<Rightarrow> pydict \<Rightarrow> 'b move_state \<Rightarrow> 'b move_state" where
  "move_file f data st =
     (let file_key = py_get data ''file_key'' in
      if \<not> truthy file_key then st
      else (case file_key of
              PStr fk \<Rightarrow>
                (case route data fk st of
                   (new_key, st1) \<Rightarrow>
                     (case copy_object f (objects st1) new_key fk of
                        Inl e \<Rightarrow> st1
                      | Inr copied \<Rightarrow>
                          (case remove_object f copied fk of
                             Inl e \<Rightarrow> st1\<lparr>objects := copied\<rparr>
                           | Inr removed \<Rightarrow> st1\<lparr>objects := removed\<rparr>)))
            | _ \<Rightarrow> st))"

fun move_files :: "faults \<Rightarrow> pydict list \<Rightarrow> 'b move_state \<Rightarrow> 'b move_state" where
  "move_files f [] st = st"
| "move_files f (data # rest) st = move_files f rest (move_file f data st)"




subsection \<open>Sample bucket\<close>






section \<open>Properties of the batcher\<close>

lemma py_range_concat:
  "0 < s \<Longrightarrow> concat (map (\<lambda>i. py_slice xs i (i + s)) (py_range i (length xs) s)) = drop i xs"
proof (induction i "length xs" s rule: py_range.induct)
  case (1 i step)
  show ?case
  proof (cases "length xs \<le> i")
    case True
    then show ?thesis by (simp add: py_range.simps [of i])
  next
    case False
    with 1 have IH:
      "concat (map (\<lambda>j. py_slice xs j (j + step)) (py_range (i + step) (length xs) step))
         = drop (i + step) xs"
      by simp
    have glue: "take step (drop i xs) @ drop (i + step) xs = drop i xs"
      by (metis append_take_drop_id drop_drop add.commute)
    from False 1(2)
    have "concat (map (\<lambda>j. py_slice xs j (j + step)) (py_range i (length xs) step))
            = take step (drop i xs)
              @ concat (map (\<lambda>j. py_slice xs j (j + step))
                          (py_range (i + step) (length xs) step))"
      by (simp add: py_range.simps [of i] py_slice_def)
    with IH glue show ?thesis by simp
  qed
qed

lemma py_range_lengths:
  "0 < s \<Longrightarrow>
   map (\<lambda>i. length (py_slice xs i (i + s))) (py_range i (length xs) s)
     = replicate ((length xs - i) div s) s
       @ (if (length xs - i) mod s = 0 then [] else [(length xs - i) mod s])"
proof (induction i "length xs" s rule: py_range.induct)
  case (1 i step)
  show ?case
  proof (cases "length xs \<le> i")
    case True
    then show ?thesis by (simp add: py_range.simps [of i])
  next
    case False
    note open_range = py_range.simps [of i "length xs" step]
    show ?thesis
    proof (cases "step \<le> length xs - i")
      case True
      with False 1 have IH:
        "map (\<lambda>j. length (py_slice xs j (j + step))) (py_range (i + step) (length xs) step)
           = replicate ((length xs - (i + step)) div step) step
             @ (if (length xs - (i + step)) mod step = 0 then []
                else [(length xs - (i + step)) mod step])"
        by simp
      from True have d: "(length xs - i) div step = Suc ((length xs - (i + step)) div step)"
        using 1(2) by (simp add: le_div_geq diff_diff_left add.commute)
      from True have m: "(length xs - i) mod step = (length xs - (i + step)) mod step"
        by (simp add: le_mod_geq diff_diff_left add.commute)
      from True have h: "length (py_slice xs i (i + step)) = step"
        by (simp add: py_slice_def)
      from False 1(2) IH d m h show ?thesis
        by (simp add: open_range)
    next
      case short: False
      then have stop: "py_range (i + step) (length xs) step = []"
        by (simp add: py_range.simps [of "i + step"])
      from short have h: "length (py_slice xs i (i + step)) = length xs - i"
        by (simp add: py_slice_def)
      from short False 1(2) stop h show ?thesis
        by (simp add: open_range)
    qed
  qed
qed

lemma py_range_nth:
  "0 < s \<Longrightarrow> k < length (py_range i n s) \<Longrightarrow> py_range i n s ! k = i + k * s"
proof (induction i n s arbitrary: k rule: py_range.induct)
  case (1 i n step)
  show ?case
  proof (cases "n \<le> i")
    case True
    with 1(3) show ?thesis by (simp add: py_range.simps [of i])
  next
    case False
    show ?thesis
    proof (cases k)
      case 0
      with False 1(2) show ?thesis by (simp add: py_range.simps [of i])
    next
      case (Suc j)
      with False 1(2,3) have "j < length (py_range (i + step) n step)"
        by (simp add: py_range.simps [of i])
      with 1(1) False 1(2) have "py_range (i + step) n step ! j = i + step + j * step"
        by simp
      with Suc False 1(2) show ?thesis by (simp add: py_range.simps [of i])
    qed
  qed
qed

text \<open>
  C7.  For every list of files and every positive batch size, \<open>create_batches\<close> returns
  groups whose concatenation is the input list (contiguous, order kept); the \<open>k\<close>-th group
  is the slice of at most \<open>size\<close> elements starting at \<open>k * size\<close>; every group has
  exactly \<open>size\<close> elements except possibly a shorter, non-empty last one.  The empty list
  gives no group, ten files with size 5 give groups of sizes \<open>[5, 5]\<close>, seven files with
  size 5 give groups of sizes \<open>[5, 2]\<close>.
\<close>

theorem create_batches_partition:
  fixes files :: "'a list"
  assumes "0 < batch_size"
  shows "(\<exists>batches. create_batches files batch_size = Inr batches
           \<and> concat batches = files
           \<and> (\<forall>k < length batches.
                 batches ! k = take (nat batch_size) (drop (k * nat batch_size) files))
           \<and> map length batches
               = replicate (length files div nat batch_size) (nat batch_size)
                 @ (if length files mod nat batch_size = 0 then []
                    else [length files mod nat batch_size]))
       \<and> create_batches ([] :: 'a list) batch_size = Inr []
       \<and> (length files = 10 \<longrightarrow>
             map_sum id (map length) (create_batches files 5) = Inr [5, 5])
       \<and> (length files = 7 \<longrightarrow>
             map_sum id (map length) (create_batches files 5) = Inr [5, 2])"
proof -
  define s where "s = nat batch_size"
  with assms have s: "0 < s" by simp
  let ?bs = "map (\<lambda>i. py_slice files i (i + s)) (py_range 0 (length files) s)"
  have run: "create_batches files batch_size = Inr ?bs"
    using assms by (simp add: create_batches_def s_def py_range.simps [of 0 0])
  have cat: "concat ?bs = files"
    using py_range_concat [OF s, of files 0] by simp
  have nth: "\<forall>k < length ?bs. ?bs ! k = take s (drop (k * s) files)"
    using s by (simp add: py_range_nth py_slice_def)
  have lens: "map length ?bs
        = replicate (length files div s) s
          @ (if length files mod s = 0 then [] else [length files mod s])"
    using py_range_lengths [OF s, of files 0] by (simp add: comp_def)
  from run cat nth lens
  have general: "\<exists>batches. create_batches files batch_size = Inr batches
           \<and> concat batches = files
           \<and> (\<forall>k < length batches.
                 batches ! k = take (nat batch_size) (drop (k * nat batch_size) files))
           \<and> map length batches
               = replicate (length files div nat batch_size) (nat batch_size)
                 @ (if length files mod nat batch_size = 0 then []
                    else [length files mod nat batch_size])"
    unfolding s_def by blast
  have none: "create_batches ([] :: 'a list) batch_size = Inr []"
    by (simp add: create_batches_def)
  have five: "map_sum id (map length) (create_batches files 5)
        = Inr (replicate (length files div 5) 5
               @ (if length files mod 5 = 0 then [] else [length files mod 5]))"
    using py_range_lengths [of 5 files 0]
    by (simp add: create_batches_def comp_def py_range.simps [of 0 0])
  have ten: "length files = 10 \<longrightarrow>
           map_sum id (map length) (create_batches files 5) = Inr [5, 5]"
    by (simp add: five numeral_2_eq_2)
  have seven: "length files = 7 \<longrightarrow>
           map_sum id (map length) (create_batches files 5) = Inr [5, 2]"
    by (simp add: five)
  from general none ten seven show ?thesis by blast
qed

theorem create_batches_partition_witness:
  "(0::int) < 2
   \<and> create_batches [''a.pdf'', ''b.pdf'', ''c.pdf''] 2 = Inr [[''a.pdf'', ''b.pdf''], [''c.pdf'']]
   \<and> create_batches ([] :: string list) 2 = Inr []
   \<and> length [1, 2, 3, 4, 5, 6, 7, 8, 9, 10 :: nat] = 10
   \<and> map_sum id (map length) (create_batches [1, 2, 3, 4, 5, 6, 7, 8, 9, 10 :: nat] 5)
       = Inr [5, 5]
   \<and> length [1, 2, 3, 4, 5, 6, 7 :: nat] = 7
   \<and> map_sum id (map length) (create_batches [1, 2, 3, 4, 5, 6, 7 :: nat] 5) = Inr [5, 2]"
proof -
  have pos: "(0::int) < 2" by simp
  have run: "create_batches [''a.pdf'', ''b.pdf'', ''c.pdf''] 2
               = Inr [[''a.pdf'', ''b.pdf''], [''c.pdf'']]"
    by (simp add: create_batches_def py_slice_def py_range.simps)
  have l10: "length [1, 2, 3, 4, 5, 6, 7, 8, 9, 10 :: nat] = 10"
    and l7: "length [1, 2, 3, 4, 5, 6, 7 :: nat] = 7"
    by simp_all
  from create_batches_partition [OF pos, of "[1, 2, 3, 4, 5, 6, 7, 8, 9, 10 :: nat]"] l10
  have ten: "map_sum id (map length) (create_batches [1, 2, 3, 4, 5, 6, 7, 8, 9, 10 :: nat] 5)
       = Inr [5, 5]"
    by blast
  from create_batches_partition [OF pos, of "[1, 2, 3, 4, 5, 6, 7 :: nat]"] l7
  have seven: "map_sum id (map length) (create_batches [1, 2, 3, 4, 5, 6, 7 :: nat] 5) = Inr [5, 2]"
    by blast
  from create_batches_partition [OF pos, of "[''a.pdf'', ''b.pdf'', ''c.pdf'']"]
  have empty: "create_batches ([] :: string list) 2 = Inr []" by blast
  from pos run empty l10 ten l7 seven show ?thesis by blast
qed

section \<open>Properties of the cost computation\<close>

text \<open>
  C8.  For every provider and token counts, the cost is
  \<open>(input_tokens * input rate + output_tokens * output rate) / 1000000\<close> with the rates that
  the provider's own table gives for its model; a model that is not in the table gets the
  default written in \<open>_get_pricing\<close> (for OpenAI the rates of \<open>gpt-4o-mini\<close>, for
  Anthropic those of \<open>claude-3-haiku-20240307\<close>, for Gemini zero).  With rates
  \<open>(0.15, 0.60)\<close>, 1000 input and 500 output tokens cost \<open>0.00045\<close>.
\<close>

theorem calculate_cost_formula:
  "calculate_cost self n_in n_out
     = (of_int n_in * input_rate (get_pricing self)
        + of_int n_out * output_rate (get_pricing self)) / 1000000
   \<and> (vendor self = OpenAI \<longrightarrow>
        get_pricing self =
          (if model self = ''gpt-4o'' then \<lparr>input_rate = 250 / 100, output_rate = 1000 / 100\<rparr>
           else if model self = ''gpt-4-turbo''
             then \<lparr>input_rate = 1000 / 100, output_rate = 3000 / 100\<rparr>
           else \<lparr>input_rate = 15 / 100, output_rate = 60 / 100\<rparr>))
   \<and> (vendor self = Anthropic \<longrightarrow>
        get_pricing self =
          (if model self = ''claude-3-opus-20240229''
             then \<lparr>input_rate = 1500 / 100, output_rate = 7500 / 100\<rparr>
           else if model self = ''claude-3-sonnet-20240229''
             then \<lparr>input_rate = 300 / 100, output_rate = 1500 / 100\<rparr>
           else \<lparr>input_rate = 25 / 100, output_rate = 125 / 100\<rparr>))
   \<and> (vendor self = Gemini \<longrightarrow>
        get_pricing self =
          (if model self = ''gemini-1.5-pro'' then \<lparr>input_rate = 125 / 100, output_rate = 500 / 100\<rparr>
           else \<lparr>input_rate = 0, output_rate = 0\<rparr>))
   \<and> (get_pricing self = \<lparr>input_rate = 15 / 100, output_rate = 60 / 100\<rparr> \<longrightarrow>
        calculate_cost self 1000 500 = 45 / 100000)"
proof -
  have formula: "calculate_cost self n_in n_out
     = (of_int n_in * input_rate (get_pricing self)
        + of_int n_out * output_rate (get_pricing self)) / 1000000"
    by (simp add: calculate_cost_def Let_def)
  have openai: "vendor self = OpenAI \<longrightarrow>
        get_pricing self =
          (if model self = ''gpt-4o'' then \<lparr>input_rate = 250 / 100, output_rate = 1000 / 100\<rparr>
           else if model self = ''gpt-4-turbo''
             then \<lparr>input_rate = 1000 / 100, output_rate = 3000 / 100\<rparr>
           else \<lparr>input_rate = 15 / 100, output_rate = 60 / 100\<rparr>)"
    by (simp add: get_pricing_def get_or_def openai_pricing_map_def)
  have anthropic: "vendor self = Anthropic \<longrightarrow>
        get_pricing self =
          (if model self = ''claude-3-opus-20240229''
             then \<lparr>input_rate = 1500 / 100, output_rate = 7500 / 100\<rparr>
           else if model self = ''claude-3-sonnet-20240229''
             then \<lparr>input_rate = 300 / 100, output_rate = 1500 / 100\<rparr>
           else \<lparr>input_rate = 25 / 100, output_rate = 125 / 100\<rparr>)"
    by (simp add: get_pricing_def get_or_def anthropic_pricing_map_def)
  have gemini: "vendor self = Gemini \<longrightarrow>
        get_pricing self =
          (if model self = ''gemini-1.5-pro'' then \<lparr>input_rate = 125 / 100, output_rate = 500 / 100\<rparr>
           else \<lparr>input_rate = 0, output_rate = 0\<rparr>)"
    by (simp add: get_pricing_def get_or_def gemini_pricing_map_def)
  have example: "get_pricing self = \<lparr>input_rate = 15 / 100, output_rate = 60 / 100\<rparr> \<longrightarrow>
        calculate_cost self 1000 500 = 45 / 100000"
    by (simp add: calculate_cost_def Let_def)
  from formula openai anthropic gemini example show ?thesis by blast
qed

theorem calculate_cost_formula_witness:
  "vendor mini = OpenAI
   \<and> get_pricing mini = \<lparr>input_rate = 15 / 100, output_rate = 60 / 100\<rparr>
   \<and> get_pricing (mini\<lparr>model := ''no-such-model''\<rparr>)
       = \<lparr>input_rate = 15 / 100, output_rate = 60 / 100\<rparr>
   \<and> get_pricing (mini\<lparr>vendor := Anthropic, model := ''claude-3-opus-20240229''\<rparr>)
       = \<lparr>input_rate = 15, output_rate = 75\<rparr>
   \<and> get_pricing (mini\<lparr>vendor := Gemini\<rparr>) = \<lparr>input_rate = 0, output_rate = 0\<rparr>
   \<and> calculate_cost mini 1000 500 = 45 / 100000"
proof -
  have v: "vendor mini = OpenAI" by (simp add: mini_def)
  have m: "model mini \<noteq> ''gpt-4o'' \<and> model mini \<noteq> ''gpt-4-turbo''" by (simp add: mini_def)
  from calculate_cost_formula [of mini 1000 500] v m
  have p: "get_pricing mini = \<lparr>input_rate = 15 / 100, output_rate = 60 / 100\<rparr>"
    and c: "calculate_cost mini 1000 500 = 45 / 100000"
    by simp_all
  from calculate_cost_formula [of "mini\<lparr>model := ''no-such-model''\<rparr>" 0 0]
  have u: "get_pricing (mini\<lparr>model := ''no-such-model''\<rparr>)
       = \<lparr>input_rate = 15 / 100, output_rate = 60 / 100\<rparr>"
    by (simp add: mini_def)
  from calculate_cost_formula [of "mini\<lparr>vendor := Anthropic, model := ''claude-3-opus-20240229''\<rparr>" 0 0]
  have a: "get_pricing (mini\<lparr>vendor := Anthropic, model := ''claude-3-opus-20240229''\<rparr>)
       = \<lparr>input_rate = 15, output_rate = 75\<rparr>"
    by simp
  from calculate_cost_formula [of "mini\<lparr>vendor := Gemini\<rparr>" 0 0]
  have g: "get_pricing (mini\<lparr>vendor := Gemini\<rparr>) = \<lparr>input_rate = 0, output_rate = 0\<rparr>"
    by (simp add: mini_def)
  from v p u a g c show ?thesis by blast
qed

section \<open>Properties of the provider selector\<close>

text \<open>
  With fallback enabled, the provider returned is the one built from the first candidate
  whose construction succeeds, and the selection raises when no candidate can be built.
\<close>

lemma py_lower_names:
  "py_lower ''openai'' = ''openai''" "py_lower ''gemini'' = ''gemini''"
  "py_lower ''anthropic'' = ''anthropic''" "py_lower ''true'' = ''true''"
  by (simp_all add: py_lower_def lower_char_def get_or_def)

lemma try_providers_all_fail:
  "\<forall>c \<in> set cs. \<exists>e. create_provider sy c key m = Inl e \<Longrightarrow>
   providers (try_providers sy key m cs st) = providers st
   \<and> tried_providers (try_providers sy key m cs st) = tried_providers st"
  by (induction cs arbitrary: st) auto

lemma try_providers_extends:
  "\<exists>ps. providers (try_providers sy key m cs st) = providers st @ ps"
proof (induction cs arbitrary: st)
  case Nil
  show ?case by simp
next
  case (Cons c cs)
  show ?case
  proof (cases "c \<in> tried_providers st")
    case True
    with Cons show ?thesis by simp
  next
    case False
    show ?thesis
    proof (cases "create_provider sy c key m")
      case (Inl e)
      from Cons [of "st\<lparr>log := log st @ [InitFailed c e]\<rparr>"] False Inl
      show ?thesis by simp
    next
      case (Inr p)
      from Cons [of "st\<lparr>providers := providers st @ [p],
                      tried_providers := insert c (tried_providers st),
                      log := log st @ [Initialized c]\<rparr>"] False Inr
      show ?thesis by auto
    qed
  qed
qed

lemma try_providers_first_success:
  assumes fails: "\<forall>c \<in> set pre. \<exists>e. create_provider sy c key m = Inl e"
    and ok: "create_provider sy c key m = Inr p"
    and fresh: "providers st = []" "tried_providers st = {}"
  shows "\<exists>ps. providers (try_providers sy key m (pre @ c # post) st) = p # ps"
  using fails fresh
proof (induction pre arbitrary: st)
  case Nil
  from try_providers_extends [of sy key m post
      "st\<lparr>providers := providers st @ [p],
          tried_providers := insert c (tried_providers st),
          log := log st @ [Initialized c]\<rparr>"]
  show ?case using Nil ok by auto
next
  case (Cons d pre)
  then obtain e where e: "create_provider sy d key m = Inl e" by auto
  from Cons.IH [of "st\<lparr>log := log st @ [InitFailed d e]\<rparr>"] Cons.prems e
  show ?case by simp
qed

lemma get_primary_provider_first_success:
  assumes fb: "py_lower (getenv_or sy ''LLM_ENABLE_FALLBACK'' ''true'') = ''true''"
    and cands: "all_providers sy (getenv_or sy ''LLM_PRIMARY_PROVIDER'' ''openai'') None
                  = pre @ c # post"
    and fails: "\<forall>d \<in> set pre. \<exists>e. create_provider sy d key m = Inl e"
    and ok: "create_provider sy c key m = Inr p"
  shows "get_primary_provider sy key m = Inr p"
proof -
  from try_providers_first_success [OF fails ok, of "\<lparr>providers = [], tried_providers = {}, log = []\<rparr>" post]
  obtain ps where "providers (fallback_run sy (getenv_or sy ''LLM_PRIMARY_PROVIDER'' ''openai'')
                       None key m) = p # ps"
    by (auto simp: fallback_run_def cands)
  with fb show ?thesis
    by (simp add: get_primary_provider_def create_with_fallback_def Let_def)
qed

lemma get_primary_provider_none_available:
  assumes fb: "py_lower (getenv_or sy ''LLM_ENABLE_FALLBACK'' ''true'') = ''true''"
    and fails: "\<forall>d \<in> set (all_providers sy (getenv_or sy ''LLM_PRIMARY_PROVIDER'' ''openai'') None).
                  \<exists>e. create_provider sy d key m = Inl e"
  shows "get_primary_provider sy key m = Inl (RuntimeError ''No LLM providers could be initialized'')"
proof -
  from try_providers_all_fail [OF fails, of "\<lparr>providers = [], tried_providers = {}, log = []\<rparr>"]
  have "providers (fallback_run sy (getenv_or sy ''LLM_PRIMARY_PROVIDER'' ''openai'') None key m) = []"
    by (simp add: fallback_run_def)
  with fb show ?thesis
    by (simp add: get_primary_provider_def create_with_fallback_def Let_def)
qed

text \<open>A candidate name that was constructed successfully is not constructed again.\<close>

lemma try_providers_success_once:
  assumes "set [t. Initialized t \<leftarrow> log st] \<subseteq> tried_providers st"
    and "distinct [t. Initialized t \<leftarrow> log st]"
  shows "distinct [t. Initialized t \<leftarrow> log (try_providers sy key m cs st)]"
  using assms
proof (induction cs arbitrary: st)
  case Nil
  then show ?case by simp
next
  case (Cons c cs)
  show ?case
  proof (cases "c \<in> tried_providers st")
    case True
    with Cons show ?thesis by simp
  next
    case False
    show ?thesis
    proof (cases "create_provider sy c key m")
      case (Inl e)
      with False Cons.prems
        Cons.IH [of "st\<lparr>log := log st @ [InitFailed c e]\<rparr>"]
      show ?thesis by simp
    next
      case (Inr p)
      with False Cons.prems
        Cons.IH [of "st\<lparr>providers := providers st @ [p],
                      tried_providers := insert c (tried_providers st),
                      log := log st @ [Initialized c]\<rparr>"]
      show ?thesis by auto
    qed
  qed
qed

lemma fallback_run_success_once:
  "distinct [t. Initialized t \<leftarrow> log (fallback_run sy primary fallback_order key m)]"
  unfolding fallback_run_def by (rule try_providers_success_once) simp_all

text \<open>
  C3.  The candidate list is the primary vendor followed by the fallback order without the
  entries equal to the primary; \<open>tried_providers\<close> is extended only after a successful
  construction.  With the fallback order \<^verbatim>\<open>gemini,gemini\<close> and no credential for any
  vendor, the candidate list holds \<open>gemini\<close> twice and its construction is attempted
  twice (two warnings are logged for it) before the selection raises.
\<close>

theorem fallback_retries_failed_vendor:
  "all_providers no_credentials ''openai'' None = [''openai'', ''gemini'', ''gemini'']
   \<and> log (fallback_run no_credentials ''openai'' None None None)
       = [InitFailed ''openai'' (OtherError ''missing credential''),
          InitFailed ''gemini'' (OtherError ''missing credential''),
          InitFailed ''gemini'' (OtherError ''missing credential'')]
   \<and> get_primary_provider no_credentials None None
       = Inl (RuntimeError ''No LLM providers could be initialized'')"
proof -
  have cands: "all_providers no_credentials ''openai'' None = [''openai'', ''gemini'', ''gemini'']"
    by (simp add: all_providers_def no_credentials_def getenv_or_def py_strip_def is_space_def)
  have o: "create_provider no_credentials ''openai'' None None = Inl (OtherError ''missing credential'')"
    by (simp add: create_provider_def new_provider_def no_credentials_def Let_def py_lower_names)
  have g: "create_provider no_credentials ''gemini'' None None = Inl (OtherError ''missing credential'')"
    by (simp add: create_provider_def new_provider_def no_credentials_def Let_def py_lower_names)
  have lg: "log (fallback_run no_credentials ''openai'' None None None)
       = [InitFailed ''openai'' (OtherError ''missing credential''),
          InitFailed ''gemini'' (OtherError ''missing credential''),
          InitFailed ''gemini'' (OtherError ''missing credential'')]"
    by (simp add: fallback_run_def cands o g)
  have pr: "providers (fallback_run no_credentials ''openai'' None None None) = []"
    by (simp add: fallback_run_def cands o g)
  have env: "getenv_or no_credentials ''LLM_PRIMARY_PROVIDER'' ''openai'' = ''openai''"
     "getenv_or no_credentials ''LLM_ENABLE_FALLBACK'' ''true'' = ''true''"
    by (simp_all add: getenv_or_def no_credentials_def)
  have res: "get_primary_provider no_credentials None None
       = Inl (RuntimeError ''No LLM providers could be initialized'')"
    by (simp add: get_primary_provider_def create_with_fallback_def Let_def env py_lower_names pr)
  from cands lg res show ?thesis by blast
qed

section \<open>Properties of the pydantic models\<close>

text \<open>
  When both operands are among the validated fields, the item validator accepts the line
  total exactly when it is within 0.01 of quantity times unit price; the model validator
  accepts exactly when the total is within 0.01 of the sum of subtotal, fees and tip and
  the subtotal is within 0.01 of the sum of the line totals.  A constructed model
  therefore satisfies all three tolerances.
\<close>

lemma validate_total_accepts:
  "validate_total v (Some q) (Some u) = Inr v' \<longleftrightarrow> v' = v \<and> \<bar>v - of_int q * u\<bar> \<le> 1 / 100"
  by (auto simp: validate_total_def Let_def)

lemma validate_total_rejects:
  "(\<exists>m. validate_total v (Some q) (Some u) = Inl m) \<longleftrightarrow> \<bar>v - of_int q * u\<bar> > 1 / 100"
  by (auto simp: validate_total_def Let_def)

lemma validate_invoice_total_accepts:
  "validate_invoice_total self = Inr self' \<longleftrightarrow>
     self' = self
     \<and> \<bar>invoice_total self
         - (subtotal self + taxa_entrega self + taxa_servico self + gorjeta self)\<bar> \<le> 1 / 100
     \<and> \<bar>subtotal self - sum_list (map preco_total (itens self))\<bar> \<le> 1 / 100"
  by (auto simp: validate_invoice_total_def Let_def)

lemma ap_Inr: "ap f x = Inr b \<longleftrightarrow> (\<exists>g a. f = Inr g \<and> x = Inr a \<and> b = g a)"
  by (auto simp: ap_def split: sum.splits)

lemma outer_Inr [simp]: "outer l r = Inr a \<longleftrightarrow> r = Inr a"
  by (simp add: outer_def split: sum.splits)

lemma required_Inr:
  "required d name f = Inr a \<longleftrightarrow> (\<exists>v. map_of d name = Some v \<and> f v = Inr a)"
  by (auto simp: required_def invalid_def outer_def split: option.splits sum.splits)

lemma float_ge_Inr: "float_ge P lo v = Inr x \<longleftrightarrow> as_float P v = Some x \<and> lo \<le> x"
  by (auto simp: float_ge_def invalid_def split: option.splits)

lemma int_ge_Inr: "int_ge P lo v = Inr n \<longleftrightarrow> as_int P v = Some n \<and> lo \<le> n"
  by (auto simp: int_ge_def invalid_def split: option.splits)

lemma preco_total_field_Inr:
  "preco_total_field P (Some q) (Some u) x = Inr t \<longleftrightarrow>
     float_ge P 0 x = Inr t \<and> \<bar>t - of_int q * u\<bar> \<le> 1 / 100"
proof (cases "float_ge P 0 x")
  case (Inl es)
  then show ?thesis by (simp add: preco_total_field_def)
next
  case (Inr t0)
  show ?thesis
  proof (cases "validate_total t0 (Some q) (Some u)")
    case (Inl m)
    with Inr validate_total_accepts [of t0 q u t0] show ?thesis
      by (auto simp: preco_total_field_def invalid_def)
  next
    case r: (Inr t1)
    with Inr validate_total_accepts [of t0 q u t1] show ?thesis
      by (auto simp: preco_total_field_def)
  qed
qed

lemma new_InvoiceItem_accepts:
  assumes "new_InvoiceItem P v = Inr it"
  shows "\<bar>preco_total it - of_int (quantidade it) * preco_unitario it\<bar> \<le> 1 / 100
         \<and> 1 \<le> quantidade it \<and> 0 \<le> preco_unitario it \<and> 0 \<le> preco_total it"
proof -
  from assms obtain d where v: "v = PDict d"
    by (cases v) (simp_all add: new_InvoiceItem_def invalid_def)
  from assms v obtain n q u t where
    q: "required d ''quantidade'' (int_ge P 1) = Inr q"
    and u: "required d ''preco_unitario'' (float_ge P 0) = Inr u"
    and t: "required d ''preco_total''
              (preco_total_field P (valid_value (required d ''quantidade'' (int_ge P 1)))
                 (valid_value (required d ''preco_unitario'' (float_ge P 0)))) = Inr t"
    and it: "it = \<lparr>nome = n, quantidade = q, preco_unitario = u, preco_total = t\<rparr>"
    by (auto simp: new_InvoiceItem_def Let_def ap_Inr)
  from q u have vq: "valid_value (required d ''quantidade'' (int_ge P 1)) = Some q"
    and vu: "valid_value (required d ''preco_unitario'' (float_ge P 0)) = Some u"
    by (simp_all add: valid_value_def)
  from t have "0 \<le> t" "\<bar>t - of_int q * u\<bar> \<le> 1 / 100"
    unfolding vq vu by (auto simp: required_Inr preco_total_field_Inr float_ge_Inr)
  moreover from q u have "1 \<le> q" "0 \<le> u"
    by (auto simp: required_Inr int_ge_Inr float_ge_Inr)
  ultimately show ?thesis using it by simp
qed

lemma validate_items_accepts:
  "validate_items P i vs = Inr its \<Longrightarrow>
     length its = length vs \<and> (\<forall>k < length vs. new_InvoiceItem P (vs ! k) = Inr (its ! k))"
proof (induction vs arbitrary: i its)
  case Nil
  then show ?case by simp
next
  case (Cons v vs)
  from Cons.prems obtain it rest where
    it: "new_InvoiceItem P v = Inr it" and rest: "validate_items P (Suc i) vs = Inr rest"
    and its: "its = it # rest"
    by (auto simp: ap_Inr)
  from Cons.IH [OF rest] it its show ?case
    by (auto simp: nth_Cons split: nat.splits)
qed

lemma items_field_accepts:
  "items_field P v = Inr its \<Longrightarrow>
     its \<noteq> [] \<and> (\<forall>it \<in> set its. \<exists>w. new_InvoiceItem P w = Inr it)"
proof -
  assume a: "items_field P v = Inr its"
  then obtain vs where v: "v = PList vs"
    by (cases v) (simp_all add: items_field_def invalid_def)
  with a have r: "validate_items P 0 vs = Inr its" and ne: "its \<noteq> []"
    by (auto simp: items_field_def invalid_def split: sum.splits if_splits)
  from validate_items_accepts [OF r] have
    "\<forall>k < length its. new_InvoiceItem P (vs ! k) = Inr (its ! k)" by simp
  then have "\<forall>it \<in> set its. \<exists>w. new_InvoiceItem P w = Inr it"
    by (metis in_set_conv_nth)
  with ne show ?thesis by simp
qed

lemma invoice_fields_itens:
  "invoice_fields P d = Inr self \<Longrightarrow>
     \<exists>v. map_of d ''itens'' = Some v \<and> items_field P v = Inr (itens self)"
  unfolding invoice_fields_def ap_Inr
  by (elim exE conjE) (auto simp: required_Inr)

lemma new_InvoiceData_accepts:
  assumes "new_InvoiceData P d = Inr self"
  shows "\<bar>invoice_total self
           - (subtotal self + taxa_entrega self + taxa_servico self + gorjeta self)\<bar> \<le> 1 / 100
         \<and> \<bar>subtotal self - sum_list (map preco_total (itens self))\<bar> \<le> 1 / 100
         \<and> itens self \<noteq> []
         \<and> (\<forall>it \<in> set (itens self).
               \<bar>preco_total it - of_int (quantidade it) * preco_unitario it\<bar> \<le> 1 / 100)"
proof -
  from assms obtain s0 where f: "invoice_fields P d = Inr s0"
    and mv: "validate_invoice_total s0 = Inr self"
    by (auto simp: new_InvoiceData_def invalid_def split: sum.splits)
  from mv have eq: "self = s0" and tol:
    "\<bar>invoice_total s0
           - (subtotal s0 + taxa_entrega s0 + taxa_servico s0 + gorjeta s0)\<bar> \<le> 1 / 100"
    "\<bar>subtotal s0 - sum_list (map preco_total (itens s0))\<bar> \<le> 1 / 100"
    by (simp_all add: validate_invoice_total_accepts)
  from invoice_fields_itens [OF f] obtain v where "items_field P v = Inr (itens s0)" by blast
  from items_field_accepts [OF this] new_InvoiceItem_accepts
  have "itens s0 \<noteq> []"
    "\<forall>it \<in> set (itens s0).
        \<bar>preco_total it - of_int (quantidade it) * preco_unitario it\<bar> \<le> 1 / 100"
    by blast+
  with eq tol show ?thesis by simp
qed

section \<open>Properties of the validator stage\<close>

text \<open>
  Every error that the field validation of \<open>InvoiceData\<close> or of \<open>ExtractionResult\<close>
  reports carries the name of a field; only the model validator reports an error with an
  empty location.
\<close>

lemma located_Inr [simp]: "located (Inr a)"
  by (simp add: located_def)

lemma located_outer [simp]: "located (outer l r)"
  by (simp add: located_def outer_def split: sum.splits)

lemma located_ap: "located f \<Longrightarrow> located x \<Longrightarrow> located (ap f x)"
  by (auto simp: located_def ap_def split: sum.splits)

lemma located_required [simp]: "located (required d name f)"
  by (simp add: required_def split: option.splits)

lemma located_with_default [simp]: "located (with_default d name dflt f)"
  by (simp add: with_default_def split: option.splits)

lemma invoice_fields_located: "located (invoice_fields P d)"
  unfolding invoice_fields_def by (intro located_ap located_Inr located_required located_with_default)

lemma new_ExtractionResult_located:
  "located (new_ExtractionResult P invoice fk prov mdl tok cst lat)"
  unfolding new_ExtractionResult_def by (intro located_ap located_Inr located_outer)

lemma error_details_located:
  "\<forall>e \<in> set es. loc e \<noteq> [] \<Longrightarrow>
   error_details P es = Inr (map (\<lambda>e. show_loc (hd (loc e)) @ '': '' @ show_msg P (msg e)) es)"
  by (induction es) (auto simp: error_details_def error_detail_def split: list.splits)

lemma error_details_model_error:
  "error_details P [\<lparr>loc = [], msg = m\<rparr>] = Inl (IndexError ''tuple index out of range'')"
  by (simp add: error_details_def error_detail_def)

lemma py_get_set [simp]: "py_get (py_set k v d) k' = (if k' = k then v else py_get d k')"
  by (simp add: py_get_def py_set_def get_or_def update_conv')

lemma map_of_py_set [simp]: "map_of (py_set k v d) k' = (if k' = k then Some v else map_of d k')"
  by (simp add: py_set_def update_conv')

text \<open>A record already marked failed is handed on as it is.\<close>

lemma validate_extraction_failed:
  "py_get extraction ''status'' = PStr ''failed'' \<Longrightarrow>
   validate_extraction P extraction = Inr extraction"
  by (simp add: validate_extraction_def)

text \<open>Field errors: the record is kept and marked for review, one message per error.\<close>

lemma validate_extraction_field_errors:
  assumes "py_get extraction ''status'' \<noteq> PStr ''failed''"
    and "invoice_fields P extraction = Inl errs"
    and "map_of extraction ''file_key'' = Some fk"
  shows "validate_extraction P extraction =
           Inr (py_set ''status'' (PStr ''needs_review'')
                 (py_set ''validation_errors''
                    (PList (map (\<lambda>e. PStr (show_loc (hd (loc e)) @ '': '' @ show_msg P (msg e)))
                              errs))
                   (py_set ''validation_passed'' (PBool False) extraction)))"
proof -
  from invoice_fields_located [of P extraction] assms(2)
  have "\<forall>e \<in> set errs. loc e \<noteq> []" by (simp add: located_def)
  from error_details_located [OF this, of P] assms show ?thesis
    by (simp add: validate_extraction_def try_validate_def new_InvoiceData_def py_item_def
        comp_def)
qed

text \<open>
  An error of the model validator: the handler indexes the empty location tuple, and the
  exception leaves the function.
\<close>

lemma validate_extraction_model_error:
  assumes "py_get extraction ''status'' \<noteq> PStr ''failed''"
    and "invoice_fields P extraction = Inr self"
    and "validate_invoice_total self = Inl m"
  shows "validate_extraction P extraction = Inl (IndexError ''tuple index out of range'')"
  using assms
  by (simp add: validate_extraction_def try_validate_def new_InvoiceData_def invalid_def
      error_details_model_error)

lemma validate_extraction_success:
  assumes "py_get extraction ''status'' \<noteq> PStr ''failed''"
    and "new_InvoiceData P extraction = Inr self"
    and "map_of extraction ''file_key'' = Some fk"
    and "new_ExtractionResult P self fk
           (get_or extraction ''provider'' (PStr ''unknown''))
           (get_or extraction ''model'' (PStr ''unknown''))
           (get_or extraction ''tokens_used'' (PInt 0))
           (get_or extraction ''cost'' (PFloat 0))
           (get_or extraction ''latency_ms'' (PFloat 0)) = Inr er"
  shows "validate_extraction P extraction =
           Inr (py_set ''status'' (PStr ''success'')
                 (py_set ''validation_passed'' (PBool True) extraction))"
  using assms
  by (simp add: validate_extraction_def try_validate_def py_item_def)



lemma try_map_Inl:
  "f x = Inl e \<Longrightarrow> x \<in> set xs \<Longrightarrow> \<exists>e'. try_map f xs = Inl e'"
  by (induction xs) (auto split: sum.splits)

text \<open>
  C1.  An extraction whose fields are all valid but whose total is 99.00 against a sum of
  30.00 (or whose subtotal is 20.00 against line totals of 25.00) is rejected by
  \<open>validate_invoice_total\<close>; the error has the empty location, the handler of
  \<open>validate_extractions\<close> raises \<^verbatim>\<open>IndexError\<close> on it, and no record with status
  \<open>needs_review\<close> is produced.  A mismatch of an item total is an error of the field
  \<open>itens\<close> and does give \<open>needs_review\<close>.
\<close>

theorem total_mismatch_raises:
  "new_InvoiceData sample_lib bad_total = Inl [\<lparr>loc = [], msg = InvoiceTotalMismatch 99 30\<rparr>]
   \<and> validate_extractions sample_lib [bad_total] = Inl (IndexError ''tuple index out of range'')
   \<and> new_InvoiceData sample_lib bad_subtotal = Inl [\<lparr>loc = [], msg = SubtotalMismatch 20 25\<rparr>]
   \<and> validate_extractions sample_lib [bad_subtotal]
       = Inl (IndexError ''tuple index out of range'')
   \<and> validate_extractions sample_lib [bad_item]
       = Inr [py_set ''status'' (PStr ''needs_review'')
               (py_set ''validation_errors''
                  (PList [PStr ''itens: Value error, Item total mismatch''])
                 (py_set ''validation_passed'' (PBool False) bad_item))]"
  by code_simp

text \<open>
  C2.  A list with a failed record, a valid record and a record whose subtotal does not
  match: the stage raises and returns no list at all, so none of the three records is kept.
  With an item mismatch in place of the subtotal mismatch the failed record is returned
  unchanged, the valid one gets \<open>success\<close> and the third gets \<open>needs_review\<close>.
\<close>

theorem business_violation_drops_all_records:
  "validate_extractions sample_lib [failed_extraction, good_extraction, bad_subtotal]
     = Inl (IndexError ''tuple index out of range'')
   \<and> validate_extractions sample_lib [failed_extraction, good_extraction, bad_item]
       = Inr [failed_extraction,
              py_set ''status'' (PStr ''success'')
                (py_set ''validation_passed'' (PBool True) good_extraction),
              py_set ''status'' (PStr ''needs_review'')
                (py_set ''validation_errors''
                   (PList [PStr ''itens: Value error, Item total mismatch''])
                  (py_set ''validation_passed'' (PBool False) bad_item))]"
  by code_simp

section \<open>Properties of the extraction stage\<close>

text \<open>
  A document with a file key always yields exactly one result with the same file key, and
  the loop hands the world state from each document to the next.
\<close>

lemma failed_entry_file_key [simp]: "map_of (failed_entry fk err) ''file_key'' = Some fk"
  by (simp add: failed_entry_def)

lemma call_llm_file_key:
  "call_llm io p d w = (Inr r, w') \<Longrightarrow> map_of d ''file_key'' = Some fk \<Longrightarrow>
   map_of r ''file_key'' = Some fk"
  by (auto simp: call_llm_def py_item_def split: option.splits sum.splits prod.splits pyval.splits)

lemma process_document_returns:
  assumes "map_of d ''file_key'' = Some fk"
  shows "\<exists>r w'. process_document io p d w = (Inr r, w') \<and> map_of r ''file_key'' = Some fk"
proof (cases "map_of d ''error'' \<noteq> None \<or> \<not> truthy (py_get d ''text'')")
  case True
  with assms show ?thesis by (auto simp: process_document_def py_item_def)
next
  case False
  obtain res w' where c: "call_llm io p d w = (res, w')" by (cases "call_llm io p d w")
  show ?thesis
  proof (cases res)
    case (Inl e)
    with c False assms show ?thesis by (simp add: process_document_def py_item_def)
  next
    case (Inr r)
    with c call_llm_file_key [of io p d w r w' fk] False assms show ?thesis
      by (simp add: process_document_def)
  qed
qed

lemma process_documents_sequential:
  assumes "\<forall>d \<in> set ds. map_of d ''file_key'' \<noteq> None"
  shows "\<exists>rs ws. process_documents io p ds w = (Inr rs, last ws)
           \<and> length rs = length ds \<and> length ws = Suc (length ds) \<and> ws ! 0 = w
           \<and> (\<forall>i < length ds.
                 process_document io p (ds ! i) (ws ! i) = (Inr (rs ! i), ws ! Suc i)
                 \<and> py_get (rs ! i) ''file_key'' = py_get (ds ! i) ''file_key'')"
  using assms
proof (induction ds arbitrary: w)
  case Nil
  have "process_documents io p [] w = (Inr [], last [w]) \<and> length [w] = Suc 0 \<and> [w] ! 0 = w"
    by simp
  then show ?case by (intro exI [of _ "[]"] exI [of _ "[w]"]) simp
next
  case (Cons d ds)
  then obtain fk where fk: "map_of d ''file_key'' = Some fk" by auto
  from process_document_returns [OF fk, of io p w] obtain r w1 where
    step: "process_document io p d w = (Inr r, w1)" and rk: "map_of r ''file_key'' = Some fk"
    by blast
  from Cons.IH [of w1] Cons.prems obtain rs ws where
    rest: "process_documents io p ds w1 = (Inr rs, last ws)"
    and len: "length rs = length ds" "length ws = Suc (length ds)" and start: "ws ! 0 = w1"
    and each: "\<forall>i < length ds.
                 process_document io p (ds ! i) (ws ! i) = (Inr (rs ! i), ws ! Suc i)
                 \<and> py_get (rs ! i) ''file_key'' = py_get (ds ! i) ''file_key''"
    by auto
  from len have ne: "ws \<noteq> []" by auto
  have run: "process_documents io p (d # ds) w = (Inr (r # rs), last (w # ws))"
    using step rest ne by simp
  have keys: "py_get r ''file_key'' = py_get d ''file_key''"
    using fk rk by (simp add: py_get_def get_or_def)
  have all: "\<forall>i < length (d # ds).
                 process_document io p ((d # ds) ! i) ((w # ws) ! i)
                   = (Inr ((r # rs) ! i), (w # ws) ! Suc i)
                 \<and> py_get ((r # rs) ! i) ''file_key'' = py_get ((d # ds) ! i) ''file_key''"
  proof (intro allI impI)
    fix i assume "i < length (d # ds)"
    then show "process_document io p ((d # ds) ! i) ((w # ws) ! i)
                   = (Inr ((r # rs) ! i), (w # ws) ! Suc i)
                 \<and> py_get ((r # rs) ! i) ''file_key'' = py_get ((d # ds) ! i) ''file_key''"
      using step start keys each by (cases i) auto
  qed
  from run len all show ?case
    by (intro exI [of _ "r # rs"] exI [of _ "w # ws"]) simp
qed

lemma selection_failure_marks_all:
  assumes "\<forall>d \<in> set ds. map_of d ''file_key'' \<noteq> None"
  shows "try_map (\<lambda>d. case py_item d ''file_key'' of
                          Inl e' \<Rightarrow> Inl e'
                        | Inr fk \<Rightarrow> Inr (failed_entry fk err)) ds
           = Inr (map (\<lambda>d. failed_entry (py_get d ''file_key'') err) ds)"
  using assms by (induction ds) (auto simp: py_item_def py_get_def get_or_def)

text \<open>
  C5.  For a batch whose documents all have a file key (as \<open>extract_batch_texts\<close> builds
  them): when no provider can be selected, every document is marked failed with the
  selection error and the world state is untouched, so no provider call was made;
  otherwise the stage returns one result per document, in order and with the document's
  file key, each being the result of processing that document alone in the world state
  the previous documents left.  A document with a text-extraction error or without text
  is marked failed without a call; a provider call or a \<^verbatim>\<open>json.loads\<close> that raises, or
  an answer that is not a JSON object, marks its document failed with the message of the
  exception.  A document whose call and parse succeed is not marked failed: its result is
  the parsed object with the file key and the provenance of the call written into it.
\<close>

theorem process_batch_isolates_failures:
  assumes "\<forall>d \<in> set batch_data. map_of d ''file_key'' \<noteq> None"
  shows "(\<forall>e. get_primary_provider sy None None = Inl e \<longrightarrow>
            process_batch_with_llm sy io batch_data w
              = (Inr (map (\<lambda>d. failed_entry (py_get d ''file_key'') (PStr (exn_str e)))
                        batch_data), w))
       \<and> (\<forall>p. get_primary_provider sy None None = Inr p \<longrightarrow>
            (\<exists>rs ws. process_batch_with_llm sy io batch_data w = (Inr rs, last ws)
               \<and> length rs = length batch_data
               \<and> length ws = Suc (length batch_data) \<and> ws ! 0 = w
               \<and> (\<forall>i < length batch_data.
                     process_document io p (batch_data ! i) (ws ! i)
                       = (Inr (rs ! i), ws ! Suc i)
                     \<and> py_get (rs ! i) ''file_key'' = py_get (batch_data ! i) ''file_key'')))
       \<and> (\<forall>p d fk v. map_of d ''file_key'' = Some fk \<longrightarrow>
            (map_of d ''error'' \<noteq> None \<or> \<not> truthy (py_get d ''text'') \<longrightarrow>
               process_document io p d v
                 = (Inr (failed_entry fk (get_or d ''error'' (PStr ''No text extracted''))), v))
          \<and> (map_of d ''error'' = None \<and> truthy (py_get d ''text'') \<longrightarrow>
               (\<forall>e v'. call_llm io p d v = (Inl e, v') \<longrightarrow>
                  process_document io p d v
                    = (Inr (failed_entry fk (PStr (exn_str e))), v'))))
       \<and> (\<forall>p d text e v v'. map_of d ''text'' = Some text \<longrightarrow>
            extract_invoice_data io p text v = (Inl e, v') \<longrightarrow>
            call_llm io p d v = (Inl e, v'))
       \<and> (\<forall>p d text resp e v v'. map_of d ''text'' = Some text \<longrightarrow>
            extract_invoice_data io p text v = (Inr resp, v') \<longrightarrow>
            json_loads io (r_content resp) = Inl e \<longrightarrow>
            call_llm io p d v = (Inl e, v'))
       \<and> (\<forall>p d r v v'. map_of d ''error'' = None \<and> truthy (py_get d ''text'') \<longrightarrow>
            call_llm io p d v = (Inr r, v') \<longrightarrow>
            process_document io p d v = (Inr r, v'))
       \<and> (\<forall>p d text fk resp invoice_data v v'.
            map_of d ''text'' = Some text \<longrightarrow> map_of d ''file_key'' = Some fk \<longrightarrow>
            extract_invoice_data io p text v = (Inr resp, v') \<longrightarrow>
            json_loads io (r_content resp) = Inr (PDict invoice_data) \<longrightarrow>
            call_llm io p d v
              = (Inr (py_set ''processed_at'' (PStr (now_isoformat io v'))
                     (py_set ''latency_ms'' (PFloat (r_latency_ms resp))
                     (py_set ''cost'' (PFloat (r_cost resp))
                     (py_set ''tokens_used'' (PInt (r_tokens_used resp))
                     (py_set ''model'' (PStr (r_model resp))
                     (py_set ''provider'' (PStr (r_provider resp))
                     (py_set ''file_key'' fk invoice_data))))))), v'))
       \<and> (\<forall>p d text resp other v v'. map_of d ''text'' = Some text \<longrightarrow>
            extract_invoice_data io p text v = (Inr resp, v') \<longrightarrow>
            json_loads io (r_content resp) = Inr other \<longrightarrow>
            (\<forall>kvs. other \<noteq> PDict kvs) \<longrightarrow>
            call_llm io p d v
              = (Inl (AttributeError (quoted (type_name other)
                                      @ '' object has no attribute '' @ quoted ''update'')),
                 v'))"
proof -
  have none: "\<forall>e. get_primary_provider sy None None = Inl e \<longrightarrow>
            process_batch_with_llm sy io batch_data w
              = (Inr (map (\<lambda>d. failed_entry (py_get d ''file_key'') (PStr (exn_str e)))
                        batch_data), w)"
    using selection_failure_marks_all [OF assms]
    by (simp add: process_batch_with_llm_def)
  have some: "\<forall>p. get_primary_provider sy None None = Inr p \<longrightarrow>
            (\<exists>rs ws. process_batch_with_llm sy io batch_data w = (Inr rs, last ws)
               \<and> length rs = length batch_data
               \<and> length ws = Suc (length batch_data) \<and> ws ! 0 = w
               \<and> (\<forall>i < length batch_data.
                     process_document io p (batch_data ! i) (ws ! i)
                       = (Inr (rs ! i), ws ! Suc i)
                     \<and> py_get (rs ! i) ''file_key'' = py_get (batch_data ! i) ''file_key''))"
    using process_documents_sequential [OF assms, of io _ w]
    by (simp add: process_batch_with_llm_def)
  have doc: "\<forall>p d fk v. map_of d ''file_key'' = Some fk \<longrightarrow>
            (map_of d ''error'' \<noteq> None \<or> \<not> truthy (py_get d ''text'') \<longrightarrow>
               process_document io p d v
                 = (Inr (failed_entry fk (get_or d ''error'' (PStr ''No text extracted''))), v))
          \<and> (map_of d ''error'' = None \<and> truthy (py_get d ''text'') \<longrightarrow>
               (\<forall>e v'. call_llm io p d v = (Inl e, v') \<longrightarrow>
                  process_document io p d v
                    = (Inr (failed_entry fk (PStr (exn_str e))), v')))"
    by (auto simp: process_document_def py_item_def)
  have call: "\<forall>p d text e v v'. map_of d ''text'' = Some text \<longrightarrow>
            extract_invoice_data io p text v = (Inl e, v') \<longrightarrow>
            call_llm io p d v = (Inl e, v')"
    by (simp add: call_llm_def py_item_def)
  have json: "\<forall>p d text resp e v v'. map_of d ''text'' = Some text \<longrightarrow>
            extract_invoice_data io p text v = (Inr resp, v') \<longrightarrow>
            json_loads io (r_content resp) = Inl e \<longrightarrow>
            call_llm io p d v = (Inl e, v')"
    by (simp add: call_llm_def py_item_def)
  have kept: "\<forall>p d r v v'. map_of d ''error'' = None \<and> truthy (py_get d ''text'') \<longrightarrow>
            call_llm io p d v = (Inr r, v') \<longrightarrow>
            process_document io p d v = (Inr r, v')"
    by (simp add: process_document_def)
  have built: "\<forall>p d text fk resp invoice_data v v'.
            map_of d ''text'' = Some text \<longrightarrow> map_of d ''file_key'' = Some fk \<longrightarrow>
            extract_invoice_data io p text v = (Inr resp, v') \<longrightarrow>
            json_loads io (r_content resp) = Inr (PDict invoice_data) \<longrightarrow>
            call_llm io p d v
              = (Inr (py_set ''processed_at'' (PStr (now_isoformat io v'))
                     (py_set ''latency_ms'' (PFloat (r_latency_ms resp))
                     (py_set ''cost'' (PFloat (r_cost resp))
                     (py_set ''tokens_used'' (PInt (r_tokens_used resp))
                     (py_set ''model'' (PStr (r_model resp))
                     (py_set ''provider'' (PStr (r_provider resp))
                     (py_set ''file_key'' fk invoice_data))))))), v')"
    by (simp add: call_llm_def py_item_def)
  have other: "\<forall>p d text resp other v v'. map_of d ''text'' = Some text \<longrightarrow>
            extract_invoice_data io p text v = (Inr resp, v') \<longrightarrow>
            json_loads io (r_content resp) = Inr other \<longrightarrow>
            (\<forall>kvs. other \<noteq> PDict kvs) \<longrightarrow>
            call_llm io p d v
              = (Inl (AttributeError (quoted (type_name other)
                                      @ '' object has no attribute '' @ quoted ''update'')),
                 v')"
    by (auto simp: call_llm_def py_item_def split: pyval.splits)
  from none some doc call json kept built other show ?thesis by blast
qed

lemma no_credentials_selection:
  "get_primary_provider no_credentials None None
     = Inl (RuntimeError ''No LLM providers could be initialized'')"
  by code_simp

lemma ready_sys_selection:
  "get_primary_provider ready_sys None None
     = Inr \<lparr>vendor = OpenAI, api_key = None, model = ''gpt-4o-mini'', temperature = 1 / 10,
            max_tokens = 1500, provider_name = ''openai''\<rparr>"
  by code_simp

lemma sample_batch_keys: "\<forall>d \<in> set sample_batch. map_of d ''file_key'' \<noteq> None"
  by code_simp

theorem process_batch_isolates_failures_witness:
  "list_all (\<lambda>d. map_of d ''file_key'' \<noteq> None) sample_batch
   \<and> process_batch_with_llm no_credentials sample_io sample_batch 0
       = (Inr (map (\<lambda>d. failed_entry (py_get d ''file_key'')
                            (PStr ''No LLM providers could be initialized''))
                 sample_batch), 0)
   \<and> (\<exists>rs ws. process_batch_with_llm ready_sys sample_io sample_batch 0 = (Inr rs, last ws)
          \<and> length rs = length sample_batch)
   \<and> map_sum id (map (\<lambda>r. py_get r ''status''))
        (fst (process_batch_with_llm ready_sys sample_io sample_batch 0))
       = Inr [PNone, PStr ''failed'', PStr ''failed'', PStr ''failed'', PNone]
   \<and> process_document sample_io mini (sample_batch ! 0) 0
       = (Inr [(''file_key'', PStr ''incoming/a.pdf''), (''provider'', PStr ''openai''),
               (''model'', PStr ''gpt-4o-mini''), (''tokens_used'', PInt 1500),
               (''cost'', PFloat (45 / 100000)), (''latency_ms'', PFloat 812),
               (''processed_at'', PStr ''2024-01-16T08:00:00'')], 1)
   \<and> process_document sample_io mini (sample_batch ! 1) 0
       = (Inr (failed_entry (PStr ''incoming/corrupt.pdf'') (PStr ''EOF marker not found'')), 0)
   \<and> process_document sample_io mini (sample_batch ! 2) 0
       = (Inr (failed_entry (PStr ''incoming/slow.pdf'') (PStr ''request timed out'')), 1)
   \<and> process_document sample_io mini (sample_batch ! 3) 0
       = (Inr (failed_entry (PStr ''incoming/odd.pdf'') (PStr ''Expecting value'')), 1)
   \<and> process_document (sample_io\<lparr>json_loads := (\<lambda>s. Inr (PList []))\<rparr>) mini (sample_batch ! 0) 0
       = (Inr (failed_entry (PStr ''incoming/a.pdf'')
                 (PStr (quoted ''list'' @ '' object has no attribute '' @ quoted ''update''))), 1)"
proof -
  note T = process_batch_isolates_failures [OF sample_batch_keys]
  from T [of no_credentials sample_io 0] no_credentials_selection
  have none: "process_batch_with_llm no_credentials sample_io sample_batch 0
       = (Inr (map (\<lambda>d. failed_entry (py_get d ''file_key'')
                            (PStr ''No LLM providers could be initialized''))
                 sample_batch), 0)"
    by simp
  from T [of ready_sys sample_io 0] ready_sys_selection
  have some: "\<exists>rs ws. process_batch_with_llm ready_sys sample_io sample_batch 0 = (Inr rs, last ws)
          \<and> length rs = length sample_batch"
    by auto
  have statuses: "map_sum id (map (\<lambda>r. py_get r ''status''))
        (fst (process_batch_with_llm ready_sys sample_io sample_batch 0))
       = Inr [PNone, PStr ''failed'', PStr ''failed'', PStr ''failed'', PNone]"
    by code_simp
  note doc = T [of ready_sys sample_io 0, THEN conjunct2, THEN conjunct2, THEN conjunct1,
                rule_format]
  note call = T [of ready_sys sample_io 0, THEN conjunct2, THEN conjunct2, THEN conjunct2,
                 THEN conjunct1, rule_format]
  note json = T [of ready_sys sample_io 0, THEN conjunct2, THEN conjunct2, THEN conjunct2,
                 THEN conjunct2, THEN conjunct1, rule_format]
  note kept = T [of ready_sys sample_io 0, THEN conjunct2, THEN conjunct2, THEN conjunct2,
                 THEN conjunct2, THEN conjunct2, THEN conjunct1, rule_format]
  note built = T [of ready_sys sample_io 0, THEN conjunct2, THEN conjunct2, THEN conjunct2,
                  THEN conjunct2, THEN conjunct2, THEN conjunct2, THEN conjunct1, rule_format]
  let ?resp = "\<lparr>r_content = ''{}'', r_provider = provider_name mini, r_model = model mini,
                r_tokens_used = 1500, r_cost = calculate_cost mini 1000 500,
                r_latency_ms = 812, r_confidence = 1\<rparr>"
  have good: "map_of (sample_batch ! 0) ''file_key'' = Some (PStr ''incoming/a.pdf'')"
    "map_of (sample_batch ! 0) ''error'' = None \<and> truthy (py_get (sample_batch ! 0) ''text'')"
    "map_of (sample_batch ! 0) ''text'' = Some (PStr ''Pedido ORD-1'')"
    by code_simp+
  have answer: "extract_invoice_data sample_io mini (PStr ''Pedido ORD-1'') 0 = (Inr ?resp, 1)"
    by (simp add: sample_io_def)
  have parsed: "json_loads sample_io (r_content ?resp) = Inr (PDict [])"
    by (simp add: sample_io_def)
  have filled: "py_set ''processed_at'' (PStr (now_isoformat sample_io 1))
                 (py_set ''latency_ms'' (PFloat (r_latency_ms ?resp))
                 (py_set ''cost'' (PFloat (r_cost ?resp))
                 (py_set ''tokens_used'' (PInt (r_tokens_used ?resp))
                 (py_set ''model'' (PStr (r_model ?resp))
                 (py_set ''provider'' (PStr (r_provider ?resp))
                 (py_set ''file_key'' (PStr ''incoming/a.pdf'') []))))))
        = [(''file_key'', PStr ''incoming/a.pdf''), (''provider'', PStr ''openai''),
           (''model'', PStr ''gpt-4o-mini''), (''tokens_used'', PInt 1500),
           (''cost'', PFloat (45 / 100000)), (''latency_ms'', PFloat 812),
           (''processed_at'', PStr ''2024-01-16T08:00:00'')]"
    by code_simp
  from built [OF good(3) good(1) answer parsed]
  have "call_llm sample_io mini (sample_batch ! 0) 0
          = (Inr (py_set ''processed_at'' (PStr (now_isoformat sample_io 1))
                 (py_set ''latency_ms'' (PFloat (r_latency_ms ?resp))
                 (py_set ''cost'' (PFloat (r_cost ?resp))
                 (py_set ''tokens_used'' (PInt (r_tokens_used ?resp))
                 (py_set ''model'' (PStr (r_model ?resp))
                 (py_set ''provider'' (PStr (r_provider ?resp))
                 (py_set ''file_key'' (PStr ''incoming/a.pdf'') []))))))), 1)" .
  from kept [OF good(2) this]
  have c0: "process_document sample_io mini (sample_batch ! 0) 0
       = (Inr [(''file_key'', PStr ''incoming/a.pdf''), (''provider'', PStr ''openai''),
               (''model'', PStr ''gpt-4o-mini''), (''tokens_used'', PInt 1500),
               (''cost'', PFloat (45 / 100000)), (''latency_ms'', PFloat 812),
               (''processed_at'', PStr ''2024-01-16T08:00:00'')], 1)"
    unfolding filled .
  have corrupt: "map_of (sample_batch ! 1) ''file_key'' = Some (PStr ''incoming/corrupt.pdf'')"
    "map_of (sample_batch ! 1) ''error'' \<noteq> None"
    "get_or (sample_batch ! 1) ''error'' (PStr ''No text extracted'') = PStr ''EOF marker not found''"
    by code_simp+
  from doc [OF corrupt(1), THEN conjunct1, rule_format, of mini 0] corrupt(2,3)
  have c1: "process_document sample_io mini (sample_batch ! 1) 0
       = (Inr (failed_entry (PStr ''incoming/corrupt.pdf'') (PStr ''EOF marker not found'')), 0)"
    by simp
  have slow: "map_of (sample_batch ! 2) ''file_key'' = Some (PStr ''incoming/slow.pdf'')"
    "map_of (sample_batch ! 2) ''error'' = None \<and> truthy (py_get (sample_batch ! 2) ''text'')"
    "map_of (sample_batch ! 2) ''text'' = Some (PStr ''timeout'')"
    "extract_invoice_data sample_io mini (PStr ''timeout'') 0
       = (Inl (OtherError ''request timed out''), 1)"
    by code_simp+
  from call [OF slow(3,4)]
  have "call_llm sample_io mini (sample_batch ! 2) 0 = (Inl (OtherError ''request timed out''), 1)" .
  from doc [OF slow(1), THEN conjunct2, rule_format, OF slow(2) this]
  have c2: "process_document sample_io mini (sample_batch ! 2) 0
       = (Inr (failed_entry (PStr ''incoming/slow.pdf'') (PStr ''request timed out'')), 1)"
    by simp
  have odd: "map_of (sample_batch ! 3) ''file_key'' = Some (PStr ''incoming/odd.pdf'')"
    "map_of (sample_batch ! 3) ''error'' = None \<and> truthy (py_get (sample_batch ! 3) ''text'')"
    "map_of (sample_batch ! 3) ''text'' = Some (PStr ''garbled'')"
    by code_simp+
  obtain resp where resp: "extract_invoice_data sample_io mini (PStr ''garbled'') 0 = (Inr resp, 1)"
    and bad: "json_loads sample_io (r_content resp) = Inl (ValueError ''Expecting value'')"
    by (simp add: sample_io_def)
  from json [OF odd(3) resp bad]
  have "call_llm sample_io mini (sample_batch ! 3) 0 = (Inl (ValueError ''Expecting value''), 1)" .
  from doc [OF odd(1), THEN conjunct2, rule_format, OF odd(2) this]
  have c3: "process_document sample_io mini (sample_batch ! 3) 0
       = (Inr (failed_entry (PStr ''incoming/odd.pdf'') (PStr ''Expecting value'')), 1)"
    by simp
  let ?io = "sample_io\<lparr>json_loads := (\<lambda>s. Inr (PList []))\<rparr>"
  note doc' = T [of ready_sys ?io 0, THEN conjunct2, THEN conjunct2, THEN conjunct1, rule_format]
  note other = T [of ready_sys ?io 0, THEN conjunct2, THEN conjunct2, THEN conjunct2,
                  THEN conjunct2, THEN conjunct2, THEN conjunct2, THEN conjunct2, rule_format]
  have answer': "extract_invoice_data ?io mini (PStr ''Pedido ORD-1'') 0 = (Inr ?resp, 1)"
    by (simp add: sample_io_def)
  have array: "json_loads ?io (r_content ?resp) = Inr (PList [])"
    by simp
  have "PList [] \<noteq> PDict kvs" for kvs by simp
  from other [OF good(3) answer' array this]
  have "call_llm ?io mini (sample_batch ! 0) 0
          = (Inl (AttributeError (quoted (type_name (PList []))
                                  @ '' object has no attribute '' @ quoted ''update'')), 1)" .
  from doc' [OF good(1), THEN conjunct2, rule_format, OF good(2) this]
  have c4: "process_document ?io mini (sample_batch ! 0) 0
       = (Inr (failed_entry (PStr ''incoming/a.pdf'')
                 (PStr (quoted ''list'' @ '' object has no attribute '' @ quoted ''update''))), 1)"
    by simp
  from sample_batch_keys have keys: "list_all (\<lambda>d. map_of d ''file_key'' \<noteq> None) sample_batch"
    by (simp add: list_all_iff)
  from keys none some statuses c0 c1 c2 c3 c4 show ?thesis by (intro conjI)
qed

section \<open>Properties of the persistence stage\<close>


lemma insert_params_clock:
  "map_of data ''order_id'' = Some v \<Longrightarrow> insert_params env n data = insert_params env 0 data"
  by (simp add: insert_params_def get_or_def split: sum.splits)




text \<open>A statement that the driver or the server refuses leaves the table as it was.\<close>

lemma store_one_refused:
  "py_get data ''status'' \<noteq> PStr ''failed'' \<Longrightarrow> insert_params env 0 data = Inr new \<Longrightarrow>
   execute_verdict env new \<noteq> Accepted \<Longrightarrow>
   store_to_database env [data] tbl
     = (tbl,
        [(''success_count'', PInt 0), (''failed_count'', PInt 1), (''total_processed'', PInt 1)])"
  by (simp add: store_to_database_def store_row_def)







text \<open>
  Records marked failed only raise the failure counter: the table, the state of the
  transaction, the success counter and the clock readings are those of the run without
  them.
\<close>

lemma store_row_failed_shift:
  "store_row env d (st\<lparr>failed_count := failed_count st + n\<rparr>)
     = (store_row env d st)\<lparr>failed_count := failed_count (store_row env d st) + n\<rparr>"
  by (cases st) (simp add: store_row_def split: sum.splits)

lemma store_rows_failed_shift:
  "store_rows env xs (st\<lparr>failed_count := failed_count st + n\<rparr>)
     = (store_rows env xs st)\<lparr>failed_count := failed_count (store_rows env xs st) + n\<rparr>"
proof (induction xs arbitrary: st)
  case Nil
  show ?case by simp
next
  case (Cons d ds)
  have "store_rows env (d # ds) (st\<lparr>failed_count := failed_count st + n\<rparr>)
          = store_rows env ds
              ((store_row env d st)\<lparr>failed_count := failed_count (store_row env d st) + n\<rparr>)"
    by (simp add: store_row_failed_shift)
  also have "\<dots> = (store_rows env ds (store_row env d st))
                     \<lparr>failed_count := failed_count (store_rows env ds (store_row env d st)) + n\<rparr>"
    by (rule Cons.IH)
  finally show ?case by simp
qed

lemma store_rows_skips_failed:
  "store_rows env xs st
     = (store_rows env (filter (\<lambda>d. py_get d ''status'' \<noteq> PStr ''failed'') xs) st)
         \<lparr>failed_count :=
            failed_count (store_rows env (filter (\<lambda>d. py_get d ''status'' \<noteq> PStr ''failed'') xs) st)
            + length (filter (\<lambda>d. py_get d ''status'' = PStr ''failed'') xs)\<rparr>"
proof (induction xs arbitrary: st)
  case Nil
  show ?case by simp
next
  case (Cons d ds)
  let ?live = "filter (\<lambda>d. py_get d ''status'' \<noteq> PStr ''failed'')"
  let ?dead = "filter (\<lambda>d. py_get d ''status'' = PStr ''failed'')"
  show ?case
  proof (cases "py_get d ''status'' = PStr ''failed''")
    case True
    have "store_rows env (d # ds) st = store_rows env ds (st\<lparr>failed_count := failed_count st + 1\<rparr>)"
      using True by (simp add: store_row_def)
    also have "\<dots> = (store_rows env ds st)\<lparr>failed_count := failed_count (store_rows env ds st) + 1\<rparr>"
      by (rule store_rows_failed_shift)
    also have "store_rows env ds st
                 = (store_rows env (?live ds) st)
                     \<lparr>failed_count := failed_count (store_rows env (?live ds) st)
                                      + length (?dead ds)\<rparr>"
      by (rule Cons.IH)
    finally show ?thesis using True by simp
  next
    case False
    have "store_rows env (d # ds) st = store_rows env ds (store_row env d st)"
      by simp
    also have "\<dots> = (store_rows env (?live ds) (store_row env d st))
                     \<lparr>failed_count := failed_count (store_rows env (?live ds) (store_row env d st))
                                      + length (?dead ds)\<rparr>"
      by (rule Cons.IH)
    finally show ?thesis using False by simp
  qed
qed

text \<open>An aborted transaction stays aborted, and one rejected \<open>INSERT\<close> aborts it.\<close>

lemma store_row_aborted: "aborted st \<Longrightarrow> aborted (store_row env d st)"
  by (simp add: store_row_def split: sum.splits)

lemma store_rows_aborted: "aborted st \<Longrightarrow> aborted (store_rows env xs st)"
  by (induction xs arbitrary: st) (simp_all add: store_row_aborted)

lemma store_rows_aborts:
  assumes "d \<in> set xs" and "py_get d ''status'' \<noteq> PStr ''failed''"
    and "\<forall>n. \<exists>r. insert_params env n d = Inr r \<and> execute_verdict env r = ServerError"
  shows "aborted (store_rows env xs st)"
  using assms(1)
proof (induction xs arbitrary: st)
  case Nil
  then show ?case by simp
next
  case (Cons x xs)
  show ?case
  proof (cases "x = d")
    case True
    from assms(3) obtain r where "insert_params env (clock_reads st) d = Inr r"
      and "execute_verdict env r = ServerError"
      by blast
    with assms(2) have "aborted (store_row env d st)"
      by (simp add: store_row_def)
    with True show ?thesis by (simp add: store_rows_aborted)
  next
    case False
    with Cons.prems have "d \<in> set xs" by simp
    from Cons.IH [OF this] show ?thesis by simp
  qed
qed

text \<open>The order ids in the table of the open transaction only grow.\<close>

lemma insert_on_conflict_ids:
  "col_order_id ` set (insert_on_conflict new t) = insert (col_order_id new) (col_order_id ` set t)"
proof (cases "col_order_id new \<noteq> PNone \<and> (\<exists>r \<in> set t. col_order_id r = col_order_id new)")
  case True
  have "map col_order_id
          (map (\<lambda>r. if col_order_id r = col_order_id new
                     then r\<lparr>col_updated_at := col_updated_at new,
                            col_raw_data := col_raw_data new\<rparr>
                     else r) t) = map col_order_id t"
    by (induction t) auto
  then have "col_order_id ` set (insert_on_conflict new t) = col_order_id ` set t"
    using True by (simp add: insert_on_conflict_def del: map_map flip: set_map)
  moreover from True have "col_order_id new \<in> col_order_id ` set t"
    by (metis imageI)
  ultimately show ?thesis by blast
next
  case False
  then show ?thesis by (auto simp: insert_on_conflict_def)
qed

lemma store_row_ids:
  "col_order_id ` set (table_rows st) \<subseteq> col_order_id ` set (table_rows (store_row env d st))"
  by (auto simp: store_row_def insert_on_conflict_ids split: sum.splits)

lemma store_rows_ids:
  "col_order_id ` set (table_rows st) \<subseteq> col_order_id ` set (table_rows (store_rows env xs st))"
proof (induction xs arbitrary: st)
  case Nil
  show ?case by simp
next
  case (Cons d ds)
  from store_row_ids [of st env d] Cons.IH [of "store_row env d st"]
  show ?case by auto
qed

text \<open>
  When the database accepts the \<open>INSERT\<close> of every record that is not failed, the
  transaction is committed, every such record is counted as a success and the table has
  a row under its order id.
\<close>

lemma store_rows_accepted:
  assumes "\<forall>d \<in> set xs. py_get d ''status'' \<noteq> PStr ''failed'' \<longrightarrow>
             (\<forall>n. \<exists>r. insert_params env n d = Inr r \<and> execute_verdict env r = Accepted)"
    and "\<not> aborted st"
  shows "\<not> aborted (store_rows env xs st)
       \<and> success_count (store_rows env xs st)
           = success_count st + length (filter (\<lambda>d. py_get d ''status'' \<noteq> PStr ''failed'') xs)
       \<and> failed_count (store_rows env xs st)
           = failed_count st + length (filter (\<lambda>d. py_get d ''status'' = PStr ''failed'') xs)
       \<and> (\<forall>d \<in> set xs. py_get d ''status'' \<noteq> PStr ''failed'' \<longrightarrow>
            (\<exists>n r. insert_params env n d = Inr r
                 \<and> col_order_id r \<in> col_order_id ` set (table_rows (store_rows env xs st))))"
  using assms
proof (induction xs arbitrary: st)
  case Nil
  then show ?case by simp
next
  case (Cons x xs)
  let ?st = "store_row env x st"
  have rest: "\<forall>d \<in> set xs. py_get d ''status'' \<noteq> PStr ''failed'' \<longrightarrow>
             (\<forall>n. \<exists>r. insert_params env n d = Inr r \<and> execute_verdict env r = Accepted)"
    using Cons.prems(1) by simp
  show ?case
  proof (cases "py_get x ''status'' = PStr ''failed''")
    case True
    then have step: "?st = st\<lparr>failed_count := failed_count st + 1\<rparr>"
      by (simp add: store_row_def)
    with Cons.prems(2) have "\<not> aborted ?st" by simp
    from Cons.IH [OF rest this] step True show ?thesis by simp
  next
    case False
    with Cons.prems(1)
    have "\<forall>n. \<exists>r. insert_params env n x = Inr r \<and> execute_verdict env r = Accepted"
      by simp
    then obtain r where r: "insert_params env (clock_reads st) x = Inr r"
      and acc: "execute_verdict env r = Accepted"
      by blast
    with False Cons.prems(2)
    have step: "?st = st\<lparr>table_rows := insert_on_conflict r (table_rows st),
                          success_count := success_count st + 1,
                          clock_reads := clock_reads st + 1\<rparr>"
      by (simp add: store_row_def)
    with Cons.prems(2) have live: "\<not> aborted ?st" by simp
    from step have "col_order_id r \<in> col_order_id ` set (table_rows ?st)"
      by (simp add: insert_on_conflict_ids)
    with store_rows_ids [of ?st env xs]
    have "col_order_id r \<in> col_order_id ` set (table_rows (store_rows env xs ?st))"
      by blast
    with r have head: "\<exists>n r. insert_params env n x = Inr r
                 \<and> col_order_id r \<in> col_order_id ` set (table_rows (store_rows env xs ?st))"
      by blast
    from Cons.IH [OF rest live] step False head show ?thesis by simp
  qed
qed

lemma unreadable_document_marked_failed:
  assumes "read_pdf io bucket key = Inl e"
  shows "\<exists>m. fst (process_batch_with_llm sy io (extract_batch_texts io bucket [key]) w)
             = Inr [failed_entry (PStr key) (PStr m)]"
proof (cases "get_primary_provider sy None None")
  case (Inl err)
  with assms have "fst (process_batch_with_llm sy io (extract_batch_texts io bucket [key]) w)
             = Inr [failed_entry (PStr key) (PStr (exn_str err))]"
    by (simp add: process_batch_with_llm_def extract_batch_texts_def py_item_def)
  then show ?thesis by blast
next
  case (Inr p)
  with assms have "fst (process_batch_with_llm sy io (extract_batch_texts io bucket [key]) w)
             = Inr [failed_entry (PStr key) (PStr (exn_str e))]"
    by (simp add: process_batch_with_llm_def extract_batch_texts_def process_document_def
        py_item_def get_or_def)
  then show ?thesis by blast
qed

text \<open>
  C9.  Failed records are skipped: the table after an invocation is the table that the
  same invocation gives for the records that are not failed, the failed ones are counted
  in \<open>failed_count\<close> and in \<open>total_processed\<close>, and when every record is failed the table
  is unchanged.  A document whose bytes cannot be read comes out of the extraction stage
  as a failed record, passes the validator unchanged, and persisting it writes no row.
  When the database accepts the \<open>INSERT\<close> of every record that is not failed, each of
  them is counted as a success and has a row under its order id.  The remaining records
  are not written in every invocation, though: when the server rejects the \<open>INSERT\<close> of
  one record that is not failed, the table after the invocation is the table before it,
  so the records that were accepted and counted as successes have no row either.
\<close>

theorem rejected_insert_discards_all_rows:
  "fst (store_to_database env xs tbl)
     = fst (store_to_database env (filter (\<lambda>d. py_get d ''status'' \<noteq> PStr ''failed'') xs) tbl)
   \<and> py_get (snd (store_to_database env xs tbl)) ''success_count''
       = py_get (snd (store_to_database env
                        (filter (\<lambda>d. py_get d ''status'' \<noteq> PStr ''failed'') xs) tbl))
           ''success_count''
   \<and> (\<exists>n. py_get (snd (store_to_database env
                          (filter (\<lambda>d. py_get d ''status'' \<noteq> PStr ''failed'') xs) tbl))
              ''failed_count'' = PInt (int n)
          \<and> py_get (snd (store_to_database env xs tbl)) ''failed_count''
              = PInt (int (n + length (filter (\<lambda>d. py_get d ''status'' = PStr ''failed'') xs))))
   \<and> py_get (snd (store_to_database env xs tbl)) ''total_processed'' = PInt (int (length xs))
   \<and> ((\<forall>d \<in> set xs. py_get d ''status'' = PStr ''failed'') \<longrightarrow>
        store_to_database env xs tbl
          = (tbl, [(''success_count'', PInt 0), (''failed_count'', PInt (int (length xs))),
                   (''total_processed'', PInt (int (length xs)))]))
   \<and> (\<forall>e. read_pdf io bucket key = Inl e \<longrightarrow>
        (\<exists>r. fst (process_batch_with_llm sy io (extract_batch_texts io bucket [key]) w) = Inr [r]
           \<and> py_get r ''status'' = PStr ''failed'' \<and> py_get r ''file_key'' = PStr key
           \<and> validate_extractions P [r] = Inr [r]
           \<and> fst (store_to_database env [r] tbl) = tbl))
   \<and> ((\<forall>d \<in> set xs. py_get d ''status'' \<noteq> PStr ''failed'' \<longrightarrow>
          (\<forall>n. \<exists>r. insert_params env n d = Inr r \<and> execute_verdict env r = Accepted)) \<longrightarrow>
        snd (store_to_database env xs tbl)
          = [(''success_count'',
                PInt (int (length (filter (\<lambda>d. py_get d ''status'' \<noteq> PStr ''failed'') xs)))),
             (''failed_count'',
                PInt (int (length (filter (\<lambda>d. py_get d ''status'' = PStr ''failed'') xs)))),
             (''total_processed'', PInt (int (length xs)))]
        \<and> (\<forall>d \<in> set xs. py_get d ''status'' \<noteq> PStr ''failed'' \<longrightarrow>
             (\<exists>n r row. insert_params env n d = Inr r
                  \<and> row \<in> set (fst (store_to_database env xs tbl))
                  \<and> col_order_id row = col_order_id r)))
   \<and> (\<forall>d \<in> set xs. py_get d ''status'' \<noteq> PStr ''failed''
          \<and> (\<forall>n. \<exists>r. insert_params env n d = Inr r \<and> execute_verdict env r = ServerError) \<longrightarrow>
        fst (store_to_database env xs tbl) = tbl)"
proof -
  let ?live = "filter (\<lambda>d. py_get d ''status'' \<noteq> PStr ''failed'') xs"
  let ?dead = "filter (\<lambda>d. py_get d ''status'' = PStr ''failed'') xs"
  let ?init = "\<lparr>table_rows = tbl, success_count = 0, failed_count = 0, clock_reads = 0,
                aborted = False\<rparr>"
  note skip = store_rows_skips_failed [of env xs ?init]
  have rows: "fst (store_to_database env xs tbl) = fst (store_to_database env ?live tbl)"
    by (subst store_to_database_def, subst skip) (simp add: store_to_database_def Let_def)
  have succ: "py_get (snd (store_to_database env xs tbl)) ''success_count''
       = py_get (snd (store_to_database env ?live tbl)) ''success_count''"
    by (subst store_to_database_def, subst skip)
       (simp add: store_to_database_def Let_def py_get_def get_or_def)
  have fail: "\<exists>n. py_get (snd (store_to_database env ?live tbl)) ''failed_count'' = PInt (int n)
          \<and> py_get (snd (store_to_database env xs tbl)) ''failed_count''
              = PInt (int (n + length ?dead))"
    by (subst (2) store_to_database_def, subst skip)
       (simp add: store_to_database_def Let_def py_get_def get_or_def)
  have total: "py_get (snd (store_to_database env xs tbl)) ''total_processed''
                 = PInt (int (length xs))"
    by (simp add: store_to_database_def Let_def py_get_def get_or_def)
  have allfailed: "(\<forall>d \<in> set xs. py_get d ''status'' = PStr ''failed'') \<longrightarrow>
        store_to_database env xs tbl
          = (tbl, [(''success_count'', PInt 0), (''failed_count'', PInt (int (length xs))),
                   (''total_processed'', PInt (int (length xs)))])"
  proof
    assume all: "\<forall>d \<in> set xs. py_get d ''status'' = PStr ''failed''"
    then have "?live = []" "?dead = xs" by (simp_all add: filter_empty_conv)
    with skip have "store_rows env xs ?init = ?init\<lparr>failed_count := length xs\<rparr>" by simp
    then show "store_to_database env xs tbl
          = (tbl, [(''success_count'', PInt 0), (''failed_count'', PInt (int (length xs))),
                   (''total_processed'', PInt (int (length xs)))])"
      by (simp add: store_to_database_def)
  qed
  have chain: "\<forall>e. read_pdf io bucket key = Inl e \<longrightarrow>
        (\<exists>r. fst (process_batch_with_llm sy io (extract_batch_texts io bucket [key]) w) = Inr [r]
           \<and> py_get r ''status'' = PStr ''failed'' \<and> py_get r ''file_key'' = PStr key
           \<and> validate_extractions P [r] = Inr [r]
           \<and> fst (store_to_database env [r] tbl) = tbl)"
  proof (intro allI impI)
    fix e assume "read_pdf io bucket key = Inl e"
    from unreadable_document_marked_failed [OF this, of sy w] obtain m where
      r: "fst (process_batch_with_llm sy io (extract_batch_texts io bucket [key]) w)
             = Inr [failed_entry (PStr key) (PStr m)]"
      by blast
    have st: "py_get (failed_entry (PStr key) (PStr m)) ''status'' = PStr ''failed''"
      and fk: "py_get (failed_entry (PStr key) (PStr m)) ''file_key'' = PStr key"
      by (simp_all add: failed_entry_def py_get_def get_or_def)
    from st have v: "validate_extractions P [failed_entry (PStr key) (PStr m)]
                       = Inr [failed_entry (PStr key) (PStr m)]"
      by (simp add: validate_extractions_def validate_extraction_def)
    from st have s: "fst (store_to_database env [failed_entry (PStr key) (PStr m)] tbl) = tbl"
      by (simp add: store_to_database_def store_row_def)
    from r st fk v s
    show "\<exists>r. fst (process_batch_with_llm sy io (extract_batch_texts io bucket [key]) w) = Inr [r]
           \<and> py_get r ''status'' = PStr ''failed'' \<and> py_get r ''file_key'' = PStr key
           \<and> validate_extractions P [r] = Inr [r]
           \<and> fst (store_to_database env [r] tbl) = tbl"
      by blast
  qed
  have written: "(\<forall>d \<in> set xs. py_get d ''status'' \<noteq> PStr ''failed'' \<longrightarrow>
          (\<forall>n. \<exists>r. insert_params env n d = Inr r \<and> execute_verdict env r = Accepted)) \<longrightarrow>
        snd (store_to_database env xs tbl)
          = [(''success_count'', PInt (int (length ?live))),
             (''failed_count'', PInt (int (length ?dead))),
             (''total_processed'', PInt (int (length xs)))]
        \<and> (\<forall>d \<in> set xs. py_get d ''status'' \<noteq> PStr ''failed'' \<longrightarrow>
             (\<exists>n r row. insert_params env n d = Inr r
                  \<and> row \<in> set (fst (store_to_database env xs tbl))
                  \<and> col_order_id row = col_order_id r))"
  proof
    assume "\<forall>d \<in> set xs. py_get d ''status'' \<noteq> PStr ''failed'' \<longrightarrow>
          (\<forall>n. \<exists>r. insert_params env n d = Inr r \<and> execute_verdict env r = Accepted)"
    from store_rows_accepted [OF this, of ?init]
    have open_tx: "\<not> aborted (store_rows env xs ?init)"
      and s: "success_count (store_rows env xs ?init) = length ?live"
      and f: "failed_count (store_rows env xs ?init) = length ?dead"
      and ids: "\<forall>d \<in> set xs. py_get d ''status'' \<noteq> PStr ''failed'' \<longrightarrow>
            (\<exists>n r. insert_params env n d = Inr r
                 \<and> col_order_id r \<in> col_order_id ` set (table_rows (store_rows env xs ?init)))"
      by simp_all
    from open_tx have tbl: "fst (store_to_database env xs tbl) = table_rows (store_rows env xs ?init)"
      by (simp add: store_to_database_def Let_def)
    have counters: "snd (store_to_database env xs tbl)
          = [(''success_count'', PInt (int (length ?live))),
             (''failed_count'', PInt (int (length ?dead))),
             (''total_processed'', PInt (int (length xs)))]"
      using s f by (simp add: store_to_database_def Let_def)
    have "\<forall>d \<in> set xs. py_get d ''status'' \<noteq> PStr ''failed'' \<longrightarrow>
             (\<exists>n r row. insert_params env n d = Inr r
                  \<and> row \<in> set (fst (store_to_database env xs tbl))
                  \<and> col_order_id row = col_order_id r)"
      unfolding tbl using ids by (metis imageE)
    with counters show "snd (store_to_database env xs tbl)
          = [(''success_count'', PInt (int (length ?live))),
             (''failed_count'', PInt (int (length ?dead))),
             (''total_processed'', PInt (int (length xs)))]
        \<and> (\<forall>d \<in> set xs. py_get d ''status'' \<noteq> PStr ''failed'' \<longrightarrow>
             (\<exists>n r row. insert_params env n d = Inr r
                  \<and> row \<in> set (fst (store_to_database env xs tbl))
                  \<and> col_order_id row = col_order_id r))"
      by (rule conjI)
  qed
  have rejected: "\<forall>d \<in> set xs. py_get d ''status'' \<noteq> PStr ''failed''
          \<and> (\<forall>n. \<exists>r. insert_params env n d = Inr r \<and> execute_verdict env r = ServerError) \<longrightarrow>
        fst (store_to_database env xs tbl) = tbl"
  proof (intro ballI impI)
    fix d assume "d \<in> set xs"
      and "py_get d ''status'' \<noteq> PStr ''failed''
          \<and> (\<forall>n. \<exists>r. insert_params env n d = Inr r \<and> execute_verdict env r = ServerError)"
    then have "aborted (store_rows env xs ?init)"
      by (intro store_rows_aborts [of d]) simp_all
    then show "fst (store_to_database env xs tbl) = tbl"
      by (simp add: store_to_database_def Let_def)
  qed
  from rows succ fail total allfailed chain written rejected show ?thesis
    by (intro conjI)
qed


theorem rejected_insert_discards_all_rows_witness:
  "validate_extractions sample_lib
       [failed_extraction, good_extraction, large_extraction, other_extraction]
     = Inr [failed_extraction, stored_good, stored_large, stored_other]
   \<and> py_get stored_large ''status'' = PStr ''success''
   \<and> map_sum id (execute_verdict (db_at 100)) (insert_params (db_at 100) 0 stored_large)
       = Inr ServerError
   \<and> store_to_database (db_at 100) [failed_extraction, stored_good, stored_large, stored_other] []
       = ([], [(''success_count'', PInt 1), (''failed_count'', PInt 3),
               (''total_processed'', PInt 4)])
   \<and> map col_file_key
         (fst (store_to_database (db_at 100) [failed_extraction, stored_good, stored_other] []))
       = [PStr ''incoming/a.pdf'', PStr ''incoming/d.pdf'']
   \<and> snd (store_to_database (db_at 100) [failed_extraction, stored_good, stored_other] [])
       = [(''success_count'', PInt 2), (''failed_count'', PInt 1), (''total_processed'', PInt 3)]
   \<and> read_pdf sample_io ''invoices'' ''incoming/corrupt.pdf'' = Inl (OtherError ''EOF marker not found'')
   \<and> py_get failed_extraction ''status'' = PStr ''failed''
   \<and> store_to_database (db_at 100) [failed_extraction] []
       = ([], [(''success_count'', PInt 0), (''failed_count'', PInt 1),
               (''total_processed'', PInt 1)])
   \<and> (\<exists>r. fst (process_batch_with_llm ready_sys sample_io
                  (extract_batch_texts sample_io ''invoices'' [''incoming/corrupt.pdf'']) (0::nat))
             = Inr [r]
          \<and> py_get r ''status'' = PStr ''failed''
          \<and> fst (store_to_database (db_at 100) [r] []) = [])"
proof -
  note T = rejected_insert_discards_all_rows
  let ?four = "[failed_extraction, stored_good, stored_large, stored_other]"
  let ?three = "[failed_extraction, stored_good, stored_other]"
  have validated: "validate_extractions sample_lib
       [failed_extraction, good_extraction, large_extraction, other_extraction]
     = Inr ?four"
    by code_simp
  have unreadable: "read_pdf sample_io ''invoices'' ''incoming/corrupt.pdf''
                      = Inl (OtherError ''EOF marker not found'')"
    by code_simp
  have status: "py_get failed_extraction ''status'' = PStr ''failed''"
    "py_get stored_good ''status'' \<noteq> PStr ''failed''"
    "py_get stored_other ''status'' \<noteq> PStr ''failed''"
    "py_get stored_large ''status'' \<noteq> PStr ''failed''"
    "py_get stored_large ''status'' = PStr ''success''"
    by code_simp+
  have keys: "map_of stored_good ''order_id'' = Some (PStr ''ORD-1'')"
    "map_of stored_other ''order_id'' = Some (PStr ''ORD-2'')"
    "map_of stored_large ''order_id'' = Some (PStr ''ORD-3'')"
    by code_simp+
  have verdicts:
    "map_sum id (execute_verdict (db_at 100)) (insert_params (db_at 100) 0 stored_good)
       = Inr Accepted"
    "map_sum id (execute_verdict (db_at 100)) (insert_params (db_at 100) 0 stored_other)
       = Inr Accepted"
    "map_sum id (execute_verdict (db_at 100)) (insert_params (db_at 100) 0 stored_large)
       = Inr ServerError"
    by code_simp+
  have good: "\<forall>n. \<exists>r. insert_params (db_at 100) n stored_good = Inr r
                      \<and> execute_verdict (db_at 100) r = Accepted"
  proof
    fix n
    from verdicts(1) obtain r where "insert_params (db_at 100) 0 stored_good = Inr r"
      and "execute_verdict (db_at 100) r = Accepted"
      by (cases "insert_params (db_at 100) 0 stored_good") simp_all
    with insert_params_clock [OF keys(1), of "db_at 100" n]
    show "\<exists>r. insert_params (db_at 100) n stored_good = Inr r
              \<and> execute_verdict (db_at 100) r = Accepted"
      by simp
  qed
  have other: "\<forall>n. \<exists>r. insert_params (db_at 100) n stored_other = Inr r
                      \<and> execute_verdict (db_at 100) r = Accepted"
  proof
    fix n
    from verdicts(2) obtain r where "insert_params (db_at 100) 0 stored_other = Inr r"
      and "execute_verdict (db_at 100) r = Accepted"
      by (cases "insert_params (db_at 100) 0 stored_other") simp_all
    with insert_params_clock [OF keys(2), of "db_at 100" n]
    show "\<exists>r. insert_params (db_at 100) n stored_other = Inr r
              \<and> execute_verdict (db_at 100) r = Accepted"
      by simp
  qed
  have large: "\<forall>n. \<exists>r. insert_params (db_at 100) n stored_large = Inr r
                      \<and> execute_verdict (db_at 100) r = ServerError"
  proof
    fix n
    from verdicts(3) obtain r where "insert_params (db_at 100) 0 stored_large = Inr r"
      and "execute_verdict (db_at 100) r = ServerError"
      by (cases "insert_params (db_at 100) 0 stored_large") simp_all
    with insert_params_clock [OF keys(3), of "db_at 100" n]
    show "\<exists>r. insert_params (db_at 100) n stored_large = Inr r
              \<and> execute_verdict (db_at 100) r = ServerError"
      by simp
  qed

  have "stored_large \<in> set ?four" by simp
  from T [where env = "db_at 100" and xs = ?four and tbl = "[]",
          THEN conjunct2, THEN conjunct2, THEN conjunct2, THEN conjunct2, THEN conjunct2,
          THEN conjunct2, THEN conjunct2, rule_format, OF this conjI [OF status(4) large]]
  have no_rows: "fst (store_to_database (db_at 100) ?four []) = []" .
  have counted: "snd (store_to_database (db_at 100) ?four [])
                   = [(''success_count'', PInt 1), (''failed_count'', PInt 3),
                      (''total_processed'', PInt 4)]"
    by code_simp
  from no_rows counted
  have lost: "store_to_database (db_at 100) ?four []
       = ([], [(''success_count'', PInt 1), (''failed_count'', PInt 3),
               (''total_processed'', PInt 4)])"
    by (simp add: prod_eq_iff)

  have all_accepted: "\<forall>d \<in> set ?three. py_get d ''status'' \<noteq> PStr ''failed'' \<longrightarrow>
          (\<forall>n. \<exists>r. insert_params (db_at 100) n d = Inr r
                   \<and> execute_verdict (db_at 100) r = Accepted)"
    using status(1) good other by simp
  have live3: "filter (\<lambda>d. py_get d ''status'' \<noteq> PStr ''failed'') ?three
                 = [stored_good, stored_other]"
    and dead3: "filter (\<lambda>d. py_get d ''status'' = PStr ''failed'') ?three = [failed_extraction]"
    by code_simp+
  from T [where env = "db_at 100" and xs = ?three and tbl = "[]",
          THEN conjunct2, THEN conjunct2, THEN conjunct2, THEN conjunct2, THEN conjunct2,
          THEN conjunct2, THEN conjunct1, THEN mp, OF all_accepted, THEN conjunct1]
  have kept_counts: "snd (store_to_database (db_at 100) ?three [])
       = [(''success_count'', PInt 2), (''failed_count'', PInt 1), (''total_processed'', PInt 3)]"
    unfolding live3 dead3 by simp
  have kept_rows: "map col_file_key (fst (store_to_database (db_at 100) ?three []))
       = [PStr ''incoming/a.pdf'', PStr ''incoming/d.pdf'']"
    by code_simp

  have dead: "\<forall>d \<in> set [failed_extraction]. py_get d ''status'' = PStr ''failed''"
    using status(1) by simp
  from T [where env = "db_at 100" and xs = "[failed_extraction]" and tbl = "[]",
          THEN conjunct2, THEN conjunct2, THEN conjunct2, THEN conjunct2, THEN conjunct1,
          THEN mp, OF dead]
  have none: "store_to_database (db_at 100) [failed_extraction] []
       = ([], [(''success_count'', PInt 0), (''failed_count'', PInt 1),
               (''total_processed'', PInt 1)])"
    by simp
  from T [where env = "db_at 100" and tbl = "[]" and io = sample_io and bucket = "''invoices''"
            and key = "''incoming/corrupt.pdf''" and sy = ready_sys and w = "0::nat"
            and P = sample_lib,
          THEN conjunct2, THEN conjunct2, THEN conjunct2, THEN conjunct2, THEN conjunct2,
          THEN conjunct1, rule_format, OF unreadable]
  have chain: "\<exists>r. fst (process_batch_with_llm ready_sys sample_io
                  (extract_batch_texts sample_io ''invoices'' [''incoming/corrupt.pdf'']) (0::nat))
             = Inr [r]
          \<and> py_get r ''status'' = PStr ''failed''
          \<and> fst (store_to_database (db_at 100) [r] []) = []"
    by blast
  from validated status(5) verdicts(3) lost kept_rows kept_counts unreadable status(1) none chain
  show ?thesis by (intro conjI)
qed

section \<open>Properties of the file lifecycle manager\<close>














lemma move_files_append: "move_files f (xs @ ys) st = move_files f ys (move_files f xs st)"
  by (induction xs arbitrary: st) simp_all














end
